theory Spec2Isabelle
  imports Complex_Main
begin

section \<open>Python values and exceptions\<close>

text \<open>
  The module \<^verbatim>\<open>traiNNer/utils/color_util.py\<close> converts images between colour spaces, on
  NumPy arrays (channel last) and on PyTorch tensors (channel first). Samples of a floating
  dtype are modelled by real numbers: the arithmetic of the model is exact, where the
  program rounds every operation to binary32 or binary64. Samples of an integer dtype are
  integral reals inside the range of the dtype. An exception the code can raise is an
  element of \<open>error\<close>, and a function that can raise returns \<open>error + 'a\<close>;
  \<open>Unmodelled\<close> marks the one place where the model stops short of the library.
\<close>

datatype error =
    TypeError string
  | ValueError string
  | AssertionError string
  | NotImplementedError string
  | RuntimeError string
  | IndexError string
  | Unmodelled string

datatype dtype =
  np_bool | uint8 | uint16 | int8 | int16 | int32 | int64 | float16 | float32 | float64

fun dtype_name :: "dtype \<Rightarrow> string" where
  "dtype_name np_bool = ''bool''"
| "dtype_name uint8 = ''uint8''"
| "dtype_name uint16 = ''uint16''"
| "dtype_name int8 = ''int8''"
| "dtype_name int16 = ''int16''"
| "dtype_name int32 = ''int32''"
| "dtype_name int64 = ''int64''"
| "dtype_name float16 = ''float16''"
| "dtype_name float32 = ''float32''"
| "dtype_name float64 = ''float64''"

fun is_float_dtype :: "dtype \<Rightarrow> bool" where
  "is_float_dtype float16 = True"
| "is_float_dtype float32 = True"
| "is_float_dtype float64 = True"
| "is_float_dtype _ = False"

text \<open>The least value and the width of an integer dtype.\<close>

fun int_range :: "dtype \<Rightarrow> (int \<times> nat) option" where
  "int_range uint8 = Some (0, 8)"
| "int_range uint16 = Some (0, 16)"
| "int_range int8 = Some (- 128, 8)"
| "int_range int16 = Some (- 32768, 16)"
| "int_range int32 = Some (- 2147483648, 32)"
| "int_range int64 = Some (- 9223372036854775808, 64)"
| "int_range _ = None"

definition trunc :: "real \<Rightarrow> int" where
  "trunc x = (if 0 \<le> x then \<lfloor>x\<rfloor> else \<lceil>x\<rceil>)"

text \<open>
  A C cast of one sample. A cast to a floating dtype keeps the (real) value; a cast to an
  integer dtype truncates towards zero and wraps modulo the width, which is what the cast
  does on the usual platforms for the values that occur here.
\<close>

definition cast :: "dtype \<Rightarrow> real \<Rightarrow> real" where
  "cast d x =
     (case int_range d of
        Some (lo, w) \<Rightarrow> of_int (lo + (trunc x - lo) mod 2 ^ w)
      | None \<Rightarrow> if d = np_bool then (if x = 0 then 0 else 1) else x)"

text \<open>Rounding to the nearest integer, ties to the even one (\<^verbatim>\<open>ndarray.round\<close>).\<close>

definition rint :: "real \<Rightarrow> real" where
  "rint x =
     (let f = \<lfloor>x\<rfloor>; d = x - of_int f
      in of_int (if d < 1 / 2 then f else if 1 / 2 < d then f + 1
                 else if even f then f else f + 1))"

section \<open>NumPy arrays\<close>

text \<open>
  An array is its dtype, its shape and its samples in row-major order. A well-formed array
  has as many samples as its shape says.
\<close>

record ndarray =
  dtype :: dtype
  nshape :: "nat list"
  items :: "real list"

definition wf_ndarray :: "ndarray \<Rightarrow> bool" where
  "wf_ndarray a \<longleftrightarrow> length (items a) = prod_list (nshape a)"

text \<open>The values an expression of the array functions can have.\<close>

datatype pyobj =
    PyInt int
  | PyFloat real
  | PyArr ndarray
  | PyList "pyobj list"

text \<open>\<open>chunks k m xs\<close>: the first \<open>k\<close> consecutive blocks of length \<open>m\<close> of \<open>xs\<close>.\<close>

definition chunks :: "nat \<Rightarrow> nat \<Rightarrow> 'a list \<Rightarrow> 'a list list" where
  "chunks k m xs = map (\<lambda>i. take m (drop (i * m) xs)) [0..<k]"

definition dotp :: "real list \<Rightarrow> real list \<Rightarrow> real" where
  "dotp xs ys = sum_list (map (\<lambda>(x, y). x * y) (zip xs ys))"

text \<open>Row vector times matrix; the matrix is the list of its rows and has \<open>n\<close> columns.\<close>

definition vecmat :: "nat \<Rightarrow> real list \<Rightarrow> real list list \<Rightarrow> real list" where
  "vecmat n p M = map (\<lambda>j. dotp p (map (\<lambda>row. row ! j) M)) [0..<n]"

definition astype :: "ndarray \<Rightarrow> dtype \<Rightarrow> ndarray" where
  "astype a d = \<lparr>dtype = d, nshape = nshape a, items = map (cast d) (items a)\<rparr>"

definition np_round :: "ndarray \<Rightarrow> ndarray" where
  "np_round a = a\<lparr>items := map rint (items a)\<rparr>"

text \<open>
  \<^verbatim>\<open>a /= c\<close> writes the quotient back into \<open>a\<close>; NumPy refuses to write a floating result
  into an array of an integer or boolean dtype.
\<close>

definition idiv :: "ndarray \<Rightarrow> real \<Rightarrow> error + ndarray" where
  "idiv a c =
     (if is_float_dtype (dtype a) then Inr (a\<lparr>items := map (\<lambda>x. x / c) (items a)\<rparr>)
      else Inl (TypeError ''Cannot cast ufunc divide output with casting rule same_kind''))"

text \<open>\<^verbatim>\<open>a * c\<close> and \<^verbatim>\<open>a + c\<close> with a Python number \<open>c\<close>, on a floating array.\<close>

definition np_mul_scalar :: "ndarray \<Rightarrow> real \<Rightarrow> ndarray" where
  "np_mul_scalar a c = a\<lparr>items := map (\<lambda>x. x * c) (items a)\<rparr>"

definition np_add_scalar :: "ndarray \<Rightarrow> real \<Rightarrow> ndarray" where
  "np_add_scalar a c = a\<lparr>items := map (\<lambda>x. x + c) (items a)\<rparr>"

text \<open>
  \<^verbatim>\<open>np.dot(a, v)\<close> with a list \<open>v\<close> of numbers: the sum product over the last axis of \<open>a\<close>.
  On a one-dimensional \<open>a\<close> the result is a NumPy scalar, not an array; a zero-dimensional
  \<open>a\<close> multiplies \<open>v\<close>.
\<close>

definition np_dot :: "ndarray \<Rightarrow> real list \<Rightarrow> error + pyobj" where
  "np_dot a v =
     (case nshape a of
        [] \<Rightarrow> Inr (PyArr \<lparr>dtype = float64, nshape = [length v],
                          items = map (\<lambda>c. hd (items a) * c) v\<rparr>)
      | [n] \<Rightarrow> if n \<noteq> length v then Inl (ValueError ''shapes not aligned'')
               else Inr (PyFloat (dotp (items a) v))
      | _ \<Rightarrow> if last (nshape a) \<noteq> length v then Inl (ValueError ''shapes not aligned'')
             else Inr (PyArr \<lparr>dtype = float64, nshape = butlast (nshape a),
                     items = map (\<lambda>p. dotp p v)
                       (chunks (prod_list (butlast (nshape a))) (length v) (items a))\<rparr>))"

text \<open>
  \<^verbatim>\<open>np.matmul(a, np.array(M))\<close> with a literal matrix \<open>M\<close> of \<open>n\<close> columns: every row along
  the last axis of \<open>a\<close> is multiplied by \<open>M\<close>.
\<close>

definition np_matmul :: "ndarray \<Rightarrow> nat \<Rightarrow> real list list \<Rightarrow> error + ndarray" where
  "np_matmul a n M =
     (if nshape a = [] then Inl (ValueError ''matmul: operand does not have enough dimensions'')
      else if last (nshape a) \<noteq> length M then Inl (ValueError ''matmul: size mismatch in core dimension'')
      else Inr \<lparr>dtype = float64, nshape = butlast (nshape a) @ [n],
                 items = concat (map (\<lambda>p. vecmat n p M)
                   (chunks (prod_list (butlast (nshape a))) (length M) (items a)))\<rparr>)"

text \<open>\<^verbatim>\<open>a + v\<close> with a list \<open>v\<close> of numbers, broadcast along the last axis.\<close>

definition np_add_vec :: "ndarray \<Rightarrow> real list \<Rightarrow> error + ndarray" where
  "np_add_vec a v =
     (case nshape a of
        [] \<Rightarrow> Inr \<lparr>dtype = float64, nshape = [length v], items = map (\<lambda>c. hd (items a) + c) v\<rparr>
      | _ \<Rightarrow>
        if last (nshape a) = length v then
          Inr \<lparr>dtype = float64, nshape = nshape a,
               items = concat (map (\<lambda>p. map (\<lambda>(x, c). x + c) (zip p v))
                 (chunks (prod_list (butlast (nshape a))) (length v) (items a)))\<rparr>
        else if length v = 1 then
          Inr \<lparr>dtype = float64, nshape = nshape a, items = map (\<lambda>x. x + hd v) (items a)\<rparr>
        else if last (nshape a) = 1 then
          Inr \<lparr>dtype = float64, nshape = butlast (nshape a) @ [length v],
               items = concat (map (\<lambda>x. map (\<lambda>c. x + c) v) (items a))\<rparr>
        else Inl (ValueError ''operands could not be broadcast together''))"

text \<open>
  Iterating an array, as the unpacking \<^verbatim>\<open>*a\<close> in a list display does: the sub-arrays along
  the first axis, NumPy scalars for a one-dimensional array.
\<close>

definition np_iter :: "ndarray \<Rightarrow> error + pyobj list" where
  "np_iter a =
     (case nshape a of
        [] \<Rightarrow> Inl (TypeError ''iteration over a 0-d array'')
      | [n] \<Rightarrow> Inr (map PyFloat (items a))
      | n # rest \<Rightarrow>
          Inr (map (\<lambda>p. PyArr \<lparr>dtype = dtype a, nshape = rest, items = p\<rparr>)
                 (chunks n (prod_list rest) (items a))))"

text \<open>\<^verbatim>\<open>x + 16.0\<close> on the result of \<^verbatim>\<open>np.dot\<close>.\<close>

fun py_add_float :: "pyobj \<Rightarrow> real \<Rightarrow> error + pyobj" where
  "py_add_float (PyInt i) c = Inr (PyFloat (of_int i + c))"
| "py_add_float (PyFloat x) c = Inr (PyFloat (x + c))"
| "py_add_float (PyArr a) c = Inr (PyArr (np_add_scalar a c))"
| "py_add_float (PyList xs) c = Inl (TypeError ''can only concatenate list to list'')"

section \<open>Range and type normalisers\<close>

text \<open>
  \<^verbatim>\<open>_convert_input_type_range\<close>: the cast to float32 comes first and makes a copy, the
  division is done in place on the copy, and any dtype but float32 and uint8 raises.
\<close>

definition convert_input_type_range :: "ndarray \<Rightarrow> error + ndarray" where
  "convert_input_type_range img =
     (let img_type = dtype img; img1 = astype img float32
      in if img_type = float32 then Inr img1
         else if img_type = uint8 then idiv img1 255
         else Inl (TypeError
           (''The img type should be np.float32 or np.uint8, but got '' @ dtype_name img_type)))"

text \<open>
  \<^verbatim>\<open>_convert_output_type_range\<close>. For the float target the code divides its argument in
  place, so the function returns, beside its result, the argument array as the call
  leaves it.
\<close>

definition convert_output_type_range ::
    "ndarray \<Rightarrow> dtype \<Rightarrow> (error + ndarray) \<times> ndarray" where
  "convert_output_type_range img dst_type =
     (if dst_type \<notin> set [uint8, float32] then
        (Inl (TypeError
           (''The dst_type should be np.float32 or np.uint8, but got '' @ dtype_name dst_type)),
         img)
      else if dst_type = uint8 then (Inr (astype (np_round img) dst_type), img)
      else (case idiv img 255 of
              Inl e \<Rightarrow> (Inl e, img)
            | Inr img' \<Rightarrow> (Inr (astype img' dst_type), img')))"

section \<open>YCbCr conversions on arrays\<close>

text \<open>
  \<^verbatim>\<open>assert isinstance(out_img, np.ndarray)\<close>: a list or a NumPy scalar fails it. (Run
  with assertions disabled, Python skips the statement, and the call that follows fails on
  a list instead, which has neither \<^verbatim>\<open>round\<close> nor an in-place division by a float.)
\<close>

fun assert_ndarray :: "pyobj \<Rightarrow> error + ndarray" where
  "assert_ndarray (PyArr a) = Inr a"
| "assert_ndarray _ = Inl (AssertionError [])"

definition rgb2ycbcr :: "ndarray \<Rightarrow> bool \<Rightarrow> error + ndarray" where
  "rgb2ycbcr img y_only =
     (let img_type = dtype img in
      case convert_input_type_range img of
        Inl e \<Rightarrow> Inl e
      | Inr img1 \<Rightarrow>
          (case (if y_only then
                   (case np_dot img1 [65.481, 128.553, 24.966] of
                      Inl e \<Rightarrow> Inl e
                    | Inr d \<Rightarrow> py_add_float d 16.0)
                 else
                   (case np_matmul img1 3
                           [[65.481, - 37.797, 112.0],
                            [128.553, - 74.203, - 93.786],
                            [24.966, 112.0, - 18.214]] of
                      Inl e \<Rightarrow> Inl e
                    | Inr m \<Rightarrow>
                        (case np_iter m of
                           Inl e \<Rightarrow> Inl e
                         | Inr rows \<Rightarrow> Inr (PyList (rows @ [PyInt 16, PyInt 128, PyInt 128]))))) of
             Inl e \<Rightarrow> Inl e
           | Inr out_img \<Rightarrow>
               (case assert_ndarray out_img of
                  Inl e \<Rightarrow> Inl e
                | Inr out_arr \<Rightarrow> fst (convert_output_type_range out_arr img_type))))"

definition bgr2ycbcr :: "ndarray \<Rightarrow> bool \<Rightarrow> error + ndarray" where
  "bgr2ycbcr img y_only =
     (let img_type = dtype img in
      case convert_input_type_range img of
        Inl e \<Rightarrow> Inl e
      | Inr img1 \<Rightarrow>
          (case (if y_only then
                   (case np_dot img1 [24.966, 128.553, 65.481] of
                      Inl e \<Rightarrow> Inl e
                    | Inr d \<Rightarrow> py_add_float d 16.0)
                 else
                   (case np_matmul img1 3
                           [[24.966, 112.0, - 18.214],
                            [128.553, - 74.203, - 93.786],
                            [65.481, - 37.797, 112.0]] of
                      Inl e \<Rightarrow> Inl e
                    | Inr m \<Rightarrow>
                        (case np_iter m of
                           Inl e \<Rightarrow> Inl e
                         | Inr rows \<Rightarrow> Inr (PyList (rows @ [PyInt 16, PyInt 128, PyInt 128]))))) of
             Inl e \<Rightarrow> Inl e
           | Inr out_img \<Rightarrow>
               (case assert_ndarray out_img of
                  Inl e \<Rightarrow> Inl e
                | Inr out_arr \<Rightarrow> fst (convert_output_type_range out_arr img_type))))"

definition ycbcr2rgb :: "ndarray \<Rightarrow> error + ndarray" where
  "ycbcr2rgb img =
     (let img_type = dtype img in
      case convert_input_type_range img of
        Inl e \<Rightarrow> Inl e
      | Inr img0 \<Rightarrow>
          (let img1 = np_mul_scalar img0 255 in
           case np_matmul img1 3
                  [[0.00456621, 0.00456621, 0.00456621],
                   [0, - 0.00153632, 0.00791071],
                   [0.00625893, - 0.00318811, 0]] of
             Inl e \<Rightarrow> Inl e
           | Inr m \<Rightarrow>
               (case np_add_vec (np_mul_scalar m 255.0) [- 222.921, 135.576, - 276.836] of
                  Inl e \<Rightarrow> Inl e
                | Inr out_img \<Rightarrow> fst (convert_output_type_range out_img img_type))))"

definition ycbcr2bgr :: "ndarray \<Rightarrow> error + ndarray" where
  "ycbcr2bgr img =
     (let img_type = dtype img in
      case convert_input_type_range img of
        Inl e \<Rightarrow> Inl e
      | Inr img0 \<Rightarrow>
          (let img1 = np_mul_scalar img0 255 in
           case np_matmul img1 3
                  [[0.00456621, 0.00456621, 0.00456621],
                   [0.00791071, - 0.00153632, 0],
                   [0, - 0.00318811, 0.00625893]] of
             Inl e \<Rightarrow> Inl e
           | Inr m \<Rightarrow>
               (case np_add_vec (np_mul_scalar m 255.0) [- 276.836, 135.576, - 222.921] of
                  Inl e \<Rightarrow> Inl e
                | Inr out_img \<Rightarrow> fst (convert_output_type_range out_img img_type))))"

text \<open>A valid input image: uint8 samples in 0..255 or float32 samples in [0, 1], channel last.\<close>

definition valid_image :: "ndarray \<Rightarrow> bool" where
  "valid_image a \<longleftrightarrow>
     wf_ndarray a \<and> nshape a \<noteq> [] \<and> last (nshape a) = 3 \<and>
     (dtype a = uint8 \<and> list_all (\<lambda>x. x \<in> \<int> \<and> 0 \<le> x \<and> x \<le> 255) (items a) \<or>
      dtype a = float32 \<and> list_all (\<lambda>x. 0 \<le> x \<and> x \<le> 1) (items a))"

text \<open>The composition of a conversion with its inverse, as a caller writes it.\<close>

definition roundtrip_rgb :: "ndarray \<Rightarrow> error + ndarray" where
  "roundtrip_rgb img = (case rgb2ycbcr img False of Inl e \<Rightarrow> Inl e | Inr y \<Rightarrow> ycbcr2rgb y)"

definition roundtrip_bgr :: "ndarray \<Rightarrow> error + ndarray" where
  "roundtrip_bgr img = (case bgr2ycbcr img False of Inl e \<Rightarrow> Inl e | Inr y \<Rightarrow> ycbcr2bgr y)"

section \<open>Tensors as values\<close>

text \<open>
  The value of a tensor: its shape and its elements in row-major order. The same type,
  with positions for elements, describes a view into a storage buffer (see below).
\<close>

record 'a arr =
  shape :: "nat list"
  elems :: "'a list"

definition amap :: "('a \<Rightarrow> 'b) \<Rightarrow> 'a arr \<Rightarrow> 'b arr" where
  "amap f a = \<lparr>shape = shape a, elems = map f (elems a)\<rparr>"

text \<open>All multi-indices of a shape in row-major order, and the offset of a multi-index.\<close>

primrec indices :: "nat list \<Rightarrow> nat list list" where
  "indices [] = [[]]"
| "indices (d # ds) = concat (map (\<lambda>i. map ((#) i) (indices ds)) [0..<d])"

definition flat_index :: "nat list \<Rightarrow> nat list \<Rightarrow> nat" where
  "flat_index sh idx = foldl (\<lambda>acc (d, i). acc * d + i) 0 (zip sh idx)"

text \<open>
  Broadcasting. Shapes are aligned at the right; a dimension of size 1 is stretched.
  \<open>bshape_rev\<close> works on the reversed shapes.
\<close>

fun bshape_rev :: "nat list \<Rightarrow> nat list \<Rightarrow> nat list option" where
  "bshape_rev [] ys = Some ys"
| "bshape_rev xs [] = Some xs"
| "bshape_rev (x # xs) (y # ys) =
     (if x = y \<or> y = 1 then map_option ((#) x) (bshape_rev xs ys)
      else if x = 1 then map_option ((#) y) (bshape_rev xs ys)
      else None)"

definition bshape :: "nat list \<Rightarrow> nat list \<Rightarrow> nat list option" where
  "bshape s1 s2 = map_option rev (bshape_rev (rev s1) (rev s2))"

definition expand :: "nat list \<Rightarrow> 'a arr \<Rightarrow> 'a arr" where
  "expand sh a =
     \<lparr>shape = sh,
      elems = map (\<lambda>idx. elems a ! flat_index (shape a)
                 (map (\<lambda>(d, i). if d = 1 then 0 else i)
                    (zip (shape a) (drop (length sh - length (shape a)) idx))))
               (indices sh)\<rparr>"

text \<open>An elementwise binary operation; operands of one shape need no broadcasting.\<close>

definition abinop :: "('a \<Rightarrow> 'b \<Rightarrow> 'c) \<Rightarrow> 'a arr \<Rightarrow> 'b arr \<Rightarrow> error + 'c arr" where
  "abinop f a b =
     (if shape a = shape b then
        Inr \<lparr>shape = shape a, elems = map (\<lambda>(x, y). f x y) (zip (elems a) (elems b))\<rparr>
      else
        (case bshape (shape a) (shape b) of
           None \<Rightarrow> Inl (RuntimeError ''The size of tensor a must match the size of tensor b'')
         | Some sh \<Rightarrow>
             Inr \<lparr>shape = sh,
                  elems = map (\<lambda>(x, y). f x y)
                    (zip (elems (expand sh a)) (elems (expand sh b)))\<rparr>))"

text \<open>\<^verbatim>\<open>torch.where(c, x, y)\<close>.\<close>

definition awhere :: "bool arr \<Rightarrow> 'a arr \<Rightarrow> 'a arr \<Rightarrow> error + 'a arr" where
  "awhere c x y =
     (case abinop Pair x y of
        Inl e \<Rightarrow> Inl e
      | Inr xy \<Rightarrow> abinop (\<lambda>b (u, v). if b then u else v) c xy)"

text \<open>
  \<^verbatim>\<open>t.permute(*perm)\<close>: the order must name every dimension once. Element \<open>idx\<close> of the
  result is the element of \<open>t\<close> whose index in dimension \<open>perm ! k\<close> is \<open>idx ! k\<close>.
\<close>

definition index_of :: "nat \<Rightarrow> nat list \<Rightarrow> nat" where
  "index_of d perm = length (takeWhile (\<lambda>p. p \<noteq> d) perm)"

definition permute_arr :: "nat list \<Rightarrow> 'a arr \<Rightarrow> error + 'a arr" where
  "permute_arr perm a =
     (if length perm \<noteq> length (shape a) then
        Inl (RuntimeError
          ''permute: number of dimensions in the tensor input does not match the length of the desired ordering of dimensions'')
      else if distinct perm \<and> list_all (\<lambda>p. p < length (shape a)) perm then
        (let sh = map (\<lambda>p. shape a ! p) perm
         in Inr \<lparr>shape = sh,
                 elems = map (\<lambda>idx. elems a ! flat_index (shape a)
                            (map (\<lambda>d. idx ! index_of d perm) [0..<length perm]))
                          (indices sh)\<rparr>)
      else Inl (RuntimeError ''permute: duplicate dims are not allowed''))"

text \<open>
  \<^verbatim>\<open>t[:, lo:hi, :, :]\<close>: four indices need four dimensions; the bounds of a slice are
  clipped to the size of the dimension.
\<close>

definition slice1 :: "nat \<Rightarrow> nat option \<Rightarrow> 'a arr \<Rightarrow> error + 'a arr" where
  "slice1 lo hi a =
     (case shape a of
        d0 # d1 # d2 # d3 # rest \<Rightarrow>
          (let m = prod_list (d2 # d3 # rest);
               l = min lo d1;
               h = max l (case hi of None \<Rightarrow> d1 | Some k \<Rightarrow> min k d1)
           in Inr \<lparr>shape = d0 # (h - l) # d2 # d3 # rest,
                   elems = concat (map (\<lambda>blk. take ((h - l) * m) (drop (l * m) blk))
                                     (chunks d0 (d1 * m) (elems a)))\<rparr>)
      | _ \<Rightarrow> Inl (IndexError ''too many indices for tensor''))"

text \<open>\<^verbatim>\<open>t[..., c, :, :]\<close>: the plane \<open>c\<close> of the third dimension from the end.\<close>

definition select_m3 :: "nat \<Rightarrow> 'a arr \<Rightarrow> error + 'a arr" where
  "select_m3 c a =
     (let r = length (shape a) in
      if r < 3 then Inl (IndexError ''too many indices for tensor'')
      else
        (let lead = take (r - 3) (shape a); ch = shape a ! (r - 3);
             hw = prod_list (drop (r - 2) (shape a))
         in if ch \<le> c then Inl (IndexError ''index is out of bounds for dimension'')
            else Inr \<lparr>shape = lead @ drop (r - 2) (shape a),
                     elems = concat (map (\<lambda>blk. take hw (drop (c * hw) blk))
                                       (chunks (prod_list lead) (ch * hw) (elems a)))\<rparr>))"

text \<open>\<^verbatim>\<open>torch.stack([x, y, z], -3)\<close> of tensors of one shape with at least two dimensions.\<close>

definition stack_m3 :: "'a arr \<Rightarrow> 'a arr \<Rightarrow> 'a arr \<Rightarrow> error + 'a arr" where
  "stack_m3 x y z =
     (let r = length (shape x) in
      if shape y \<noteq> shape x \<or> shape z \<noteq> shape x then
        Inl (RuntimeError ''stack expects each tensor to be equal size'')
      else if r < 2 then Inl (IndexError ''Dimension out of range'')
      else
        (let lead = take (r - 2) (shape x); hw = prod_list (drop (r - 2) (shape x));
             k = prod_list lead
         in Inr \<lparr>shape = lead @ 3 # drop (r - 2) (shape x),
                 elems = concat (map (\<lambda>i. take hw (drop (i * hw) (elems x)) @
                                            take hw (drop (i * hw) (elems y)) @
                                            take hw (drop (i * hw) (elems z))) [0..<k])\<rparr>))"

text \<open>\<^verbatim>\<open>torch.cat((r, g, b), dim=1)\<close>: the shapes agree outside dimension 1.\<close>

definition cat1 :: "'a arr \<Rightarrow> 'a arr \<Rightarrow> 'a arr \<Rightarrow> error + 'a arr" where
  "cat1 r g b =
     (case (shape r, shape g, shape b) of
        (n # cr # rest, n' # cg # rest', n'' # cb # rest'') \<Rightarrow>
          if n' = n \<and> n'' = n \<and> rest' = rest \<and> rest'' = rest then
            (let m = prod_list rest
             in Inr \<lparr>shape = n # (cr + cg + cb) # rest,
                     elems = concat (map (\<lambda>i. take (cr * m) (drop (i * (cr * m)) (elems r)) @
                                                take (cg * m) (drop (i * (cg * m)) (elems g)) @
                                                take (cb * m) (drop (i * (cb * m)) (elems b)))
                                       [0..<n])\<rparr>)
          else Inl (RuntimeError ''Sizes of tensors must match except in dimension 1'')
      | _ \<Rightarrow> Inl (IndexError ''Dimension out of range''))"

text \<open>
  \<^verbatim>\<open>torch.matmul(a, b)\<close> for a right operand of one or two dimensions, which is all this
  module multiplies by: the rows along the last dimension of \<open>a\<close> times the matrix, or
  their dot product with the vector.
\<close>

definition matmul_arr :: "real arr \<Rightarrow> real arr \<Rightarrow> error + real arr" where
  "matmul_arr a b =
     (case shape b of
        [] \<Rightarrow> Inl (RuntimeError ''both arguments to matmul need to be at least 1D'')
      | [k] \<Rightarrow>
          if shape a = [] then
            Inl (RuntimeError ''both arguments to matmul need to be at least 1D'')
          else if last (shape a) \<noteq> k then Inl (RuntimeError ''size mismatch'')
          else Inr \<lparr>shape = butlast (shape a),
                    elems = map (\<lambda>p. dotp p (elems b))
                      (chunks (prod_list (butlast (shape a))) k (elems a))\<rparr>
      | [k, m] \<Rightarrow>
          if shape a = [] then
            Inl (RuntimeError ''both arguments to matmul need to be at least 1D'')
          else if last (shape a) \<noteq> k then
            Inl (RuntimeError ''mat1 and mat2 shapes cannot be multiplied'')
          else Inr \<lparr>shape = butlast (shape a) @ [m],
                    elems = concat (map (\<lambda>p. vecmat m p (chunks k m (elems b)))
                      (chunks (prod_list (butlast (shape a))) k (elems a)))\<rparr>
      | _ \<Rightarrow> Inl (Unmodelled ''matmul with a right operand of more than two dimensions''))"


section \<open>Tensors in storage\<close>

text \<open>
  \<^verbatim>\<open>pixelformat2rgb_pt\<close> assigns to a slice of a tensor, so the tensors of the dispatchers
  and of the two YCbCr conversions they call live in a store. The store is the list of the
  storage buffers allocated so far. A tensor is a buffer and a view: the positions of its
  elements in the buffer, in row-major order of the tensor's shape. \<^verbatim>\<open>permute\<close>, slicing
  and \<^verbatim>\<open>view\<close> give a new view of the same buffer; every other operation writes its
  result into a new buffer. A computation takes the store and returns its result or
  the exception, and the store it leaves.
\<close>

type_synonym store = "real list list"

record tensor =
  buf :: nat
  view :: "nat arr"

type_synonym 'a torch = "store \<Rightarrow> (error + 'a) \<times> store"

definition ret :: "'a \<Rightarrow> 'a torch" where
  "ret x = (\<lambda>st. (Inr x, st))"

definition raise :: "error \<Rightarrow> 'a torch" where
  "raise e = (\<lambda>st. (Inl e, st))"

definition bnd :: "'a torch \<Rightarrow> ('a \<Rightarrow> 'b torch) \<Rightarrow> 'b torch" where
  "bnd m f = (\<lambda>st. case m st of (Inl e, st') \<Rightarrow> (Inl e, st') | (Inr x, st') \<Rightarrow> f x st')"

definition contents :: "store \<Rightarrow> tensor \<Rightarrow> real arr" where
  "contents st t = amap (\<lambda>i. st ! buf t ! i) (view t)"

definition new_tensor :: "real arr \<Rightarrow> tensor torch" where
  "new_tensor a =
     (\<lambda>st. (Inr \<lparr>buf = length st,
                  view = \<lparr>shape = shape a, elems = [0..<length (elems a)]\<rparr>\<rparr>,
             st @ [elems a]))"

definition t_view :: "(nat arr \<Rightarrow> error + nat arr) \<Rightarrow> tensor \<Rightarrow> tensor torch" where
  "t_view f t =
     (case f (view t) of Inl e \<Rightarrow> raise e | Inr v \<Rightarrow> ret \<lparr>buf = buf t, view = v\<rparr>)"

definition t_unary :: "(real arr \<Rightarrow> error + real arr) \<Rightarrow> tensor \<Rightarrow> tensor torch" where
  "t_unary f a =
     (\<lambda>st. case f (contents st a) of Inl e \<Rightarrow> (Inl e, st) | Inr r \<Rightarrow> new_tensor r st)"

definition t_binary ::
    "(real arr \<Rightarrow> real arr \<Rightarrow> error + real arr) \<Rightarrow> tensor \<Rightarrow> tensor \<Rightarrow> tensor torch" where
  "t_binary f a b =
     (\<lambda>st. case f (contents st a) (contents st b) of
              Inl e \<Rightarrow> (Inl e, st)
            | Inr r \<Rightarrow> new_tensor r st)"

definition t_map :: "(real \<Rightarrow> real) \<Rightarrow> tensor \<Rightarrow> tensor torch" where
  "t_map f = t_unary (\<lambda>a. Inr (amap f a))"

definition t_permute :: "nat list \<Rightarrow> tensor \<Rightarrow> tensor torch" where
  "t_permute perm = t_view (permute_arr perm)"

definition t_slice1 :: "nat \<Rightarrow> nat option \<Rightarrow> tensor \<Rightarrow> tensor torch" where
  "t_slice1 lo hi = t_view (slice1 lo hi)"

text \<open>\<^verbatim>\<open>t.view(*sh)\<close> of a tensor as \<^verbatim>\<open>torch.tensor\<close> makes it.\<close>

definition reshape_arr :: "nat list \<Rightarrow> 'a arr \<Rightarrow> error + 'a arr" where
  "reshape_arr sh a =
     (if prod_list sh = length (elems a) then Inr \<lparr>shape = sh, elems = elems a\<rparr>
      else Inl (RuntimeError ''shape is invalid for input size''))"

definition t_reshape :: "nat list \<Rightarrow> tensor \<Rightarrow> tensor torch" where
  "t_reshape sh = t_view (reshape_arr sh)"

definition t_matmul :: "tensor \<Rightarrow> tensor \<Rightarrow> tensor torch" where
  "t_matmul = t_binary matmul_arr"

definition t_add :: "tensor \<Rightarrow> tensor \<Rightarrow> tensor torch" where
  "t_add = t_binary (abinop (+))"

definition t_sub :: "tensor \<Rightarrow> tensor \<Rightarrow> tensor torch" where
  "t_sub = t_binary (abinop (-))"

definition t_cat1 :: "tensor \<Rightarrow> tensor \<Rightarrow> tensor \<Rightarrow> tensor torch" where
  "t_cat1 r g b =
     (\<lambda>st. case cat1 (contents st r) (contents st g) (contents st b) of
              Inl e \<Rightarrow> (Inl e, st)
            | Inr x \<Rightarrow> new_tensor x st)"

text \<open>
  \<^verbatim>\<open>dst[...] = src\<close>, with \<open>dst\<close> the view the index expression selects: \<open>src\<close> is broadcast
  to the shape of the view and written to the view's positions in the buffer of \<open>dst\<close>.
\<close>

definition t_assign :: "tensor \<Rightarrow> tensor \<Rightarrow> unit torch" where
  "t_assign dst src =
     (\<lambda>st. let s = contents st src; sh = shape (view dst) in
        if bshape sh (shape s) = Some sh then
          (Inr (),
           st[buf dst := foldl (\<lambda>b (i, v). b[i := v]) (st ! buf dst)
                (zip (elems (view dst))
                     (if shape s = sh then elems s else elems (expand sh s)))])
        else (Inl (RuntimeError ''shape mismatch in assignment''), st))"

section \<open>YCbCr conversions on tensors\<close>

definition rgb2ycbcr_pt :: "tensor \<Rightarrow> bool \<Rightarrow> tensor torch" where
  "rgb2ycbcr_pt img y_only =
     bnd (if y_only then
            bnd (new_tensor \<lparr>shape = [3, 1], elems = [65.481, 128.553, 24.966]\<rparr>) (\<lambda>weight.
            bnd (t_permute [0, 2, 3, 1] img) (\<lambda>p.
            bnd (t_matmul p weight) (\<lambda>m.
            bnd (t_permute [0, 3, 1, 2] m) (\<lambda>q.
            t_map (\<lambda>x. x + 16.0) q))))
          else
            bnd (new_tensor \<lparr>shape = [3, 3],
                   elems = [65.481, - 37.797, 112.0,
                            128.553, - 74.203, - 93.786,
                            24.966, 112.0, - 18.214]\<rparr>) (\<lambda>weight.
            bnd (new_tensor \<lparr>shape = [3], elems = [16, 128, 128]\<rparr>) (\<lambda>b0.
            bnd (t_reshape [1, 3, 1, 1] b0) (\<lambda>bias.
            bnd (t_permute [0, 2, 3, 1] img) (\<lambda>p.
            bnd (t_matmul p weight) (\<lambda>m.
            bnd (t_permute [0, 3, 1, 2] m) (\<lambda>q.
            t_add q bias)))))))
       (\<lambda>out_img. t_map (\<lambda>x. x / 255.0) out_img)"

definition ycbcr2rgb_pt :: "tensor \<Rightarrow> tensor torch" where
  "ycbcr2rgb_pt img =
     bnd (t_map (\<lambda>x. x * 255.0) img) (\<lambda>img_ycbcr.
     bnd (t_slice1 0 (Some 1) img_ycbcr) (\<lambda>y.
     bnd (t_slice1 1 (Some 2) img_ycbcr) (\<lambda>cb.
     bnd (t_slice1 2 (Some 3) img_ycbcr) (\<lambda>cr.
     bnd (bnd (t_map (\<lambda>x. x - 16) y) (\<lambda>y0.
          bnd (t_map (\<lambda>x. 1.164 * x) y0) (\<lambda>y1.
          bnd (t_map (\<lambda>x. x - 128) cr) (\<lambda>cr0.
          bnd (t_map (\<lambda>x. 1.596 * x) cr0) (\<lambda>cr1.
          t_add y1 cr1))))) (\<lambda>r.
     bnd (bnd (t_map (\<lambda>x. x - 16) y) (\<lambda>y0.
          bnd (t_map (\<lambda>x. 1.164 * x) y0) (\<lambda>y1.
          bnd (t_map (\<lambda>x. x - 128) cb) (\<lambda>cb0.
          bnd (t_map (\<lambda>x. 0.392 * x) cb0) (\<lambda>cb1.
          bnd (t_sub y1 cb1) (\<lambda>d.
          bnd (t_map (\<lambda>x. x - 128) cr) (\<lambda>cr0.
          bnd (t_map (\<lambda>x. 0.813 * x) cr0) (\<lambda>cr1.
          t_sub d cr1)))))))) (\<lambda>g.
     bnd (bnd (t_map (\<lambda>x. x - 16) y) (\<lambda>y0.
          bnd (t_map (\<lambda>x. 1.164 * x) y0) (\<lambda>y1.
          bnd (t_map (\<lambda>x. x - 128) cb) (\<lambda>cb0.
          bnd (t_map (\<lambda>x. 2.017 * x) cb0) (\<lambda>cb1.
          t_add y1 cb1))))) (\<lambda>b.
     bnd (t_cat1 r g b) (\<lambda>rgb.
     t_map (\<lambda>x. x / 255.0) rgb))))))))"

section \<open>Pixel-format dispatchers\<close>

text \<open>
  Modelled from the spec: the type \<^verbatim>\<open>PixelFormat\<close> of \<^verbatim>\<open>traiNNer.utils.types\<close>, which is
  not among the sources; the spec gives its five tags \<^verbatim>\<open>rgb\<close>, \<^verbatim>\<open>gray\<close>, \<^verbatim>\<open>yuv444\<close>, \<^verbatim>\<open>y\<close>
  and \<^verbatim>\<open>uv\<close>. The tag is a string at run time; \<open>PF_other s\<close> is a string outside the type,
  for which the dispatchers fall through to their last line.
\<close>

datatype PixelFormat = PF_rgb | PF_gray | PF_yuv444 | PF_y | PF_uv | PF_other string

definition rgb2pixelformat_pt :: "tensor \<Rightarrow> PixelFormat \<Rightarrow> tensor torch" where
  "rgb2pixelformat_pt img pixel_format =
     (case pixel_format of
        PF_rgb \<Rightarrow> ret img
      | PF_gray \<Rightarrow> raise (NotImplementedError [])
      | PF_yuv444 \<Rightarrow> rgb2ycbcr_pt img False
      | PF_y \<Rightarrow> bnd (rgb2ycbcr_pt img False) (\<lambda>ycbcr. t_slice1 0 (Some 1) ycbcr)
      | PF_uv \<Rightarrow> raise (NotImplementedError [])
      | PF_other s \<Rightarrow> raise (NotImplementedError s))"

definition pixelformat2rgb_pt ::
    "tensor \<Rightarrow> tensor option \<Rightarrow> PixelFormat \<Rightarrow> tensor torch" where
  "pixelformat2rgb_pt img img_ref_rgb pixel_format =
     (case pixel_format of
        PF_rgb \<Rightarrow> ret img
      | PF_gray \<Rightarrow> raise (NotImplementedError [])
      | PF_yuv444 \<Rightarrow> ycbcr2rgb_pt img
      | PF_y \<Rightarrow>
          (case img_ref_rgb of
             None \<Rightarrow> raise (AssertionError ''gt is required for luma pixel format'')
           | Some ref \<Rightarrow>
               bnd (rgb2ycbcr_pt ref False) (\<lambda>img_yuv.
               bnd (t_slice1 0 (Some 1) img_yuv) (\<lambda>luma.
               bnd (t_assign luma img) (\<lambda>_.
               ycbcr2rgb_pt img_yuv))))
      | PF_uv \<Rightarrow>
          (case img_ref_rgb of
             None \<Rightarrow> raise (AssertionError ''gt is required for chroma pixel format'')
           | Some ref \<Rightarrow>
               bnd (rgb2ycbcr_pt ref False) (\<lambda>img_yuv.
               bnd (t_slice1 1 None img_yuv) (\<lambda>chroma.
               bnd (t_assign chroma img) (\<lambda>_.
               ycbcr2rgb_pt img_yuv))))
      | PF_other s \<Rightarrow> raise (NotImplementedError s))"


section \<open>Luma and the Lab pipeline\<close>

text \<open>
  \<^verbatim>\<open>rgb_to_luma\<close>, \<^verbatim>\<open>rgb_to_linear_rgb\<close>, \<^verbatim>\<open>rgb_to_xyz\<close> and \<^verbatim>\<open>linear_rgb_to_lab_norm\<close> read
  their argument and build their result from new tensors; they are functions of the value
  of the argument. \<^verbatim>\<open>torch.pow\<close> is \<open>powr\<close>: the code raises positive numbers only,
  or discards the power where the base is not positive.
\<close>

text \<open>The text of \<^verbatim>\<open>{img.shape}\<close> in a message, as in \<^verbatim>\<open>torch.Size([1, 2, 4, 4])\<close>.\<close>

fun show_nat :: "nat \<Rightarrow> string" where
  "show_nat n =
     (if n < 10 then [''0123456789'' ! n]
      else show_nat (n div 10) @ [''0123456789'' ! (n mod 10)])"

declare show_nat.simps [simp del]

fun show_items :: "nat list \<Rightarrow> string" where
  "show_items [] = []"
| "show_items [d] = show_nat d"
| "show_items (d # ds) = show_nat d @ '', '' @ show_items ds"

definition show_size :: "nat list \<Rightarrow> string" where
  "show_size sh = ''torch.Size(['' @ show_items sh @ ''])''"

definition clamp :: "real \<Rightarrow> real \<Rightarrow> real \<Rightarrow> real" where
  "clamp lo hi x = min (max x lo) hi"

text \<open>Sequencing of steps that can raise: the first exception ends the computation.\<close>

definition ebind :: "error + 'a \<Rightarrow> ('a \<Rightarrow> error + 'b) \<Rightarrow> error + 'b" where
  "ebind r f = (case r of Inl e \<Rightarrow> Inl e | Inr x \<Rightarrow> f x)"

definition rgb_to_luma :: "real arr \<Rightarrow> error + real arr" where
  "rgb_to_luma img =
     (let r = length (shape img) in
      if r < 3 \<or> (shape img ! (r - 3) \<noteq> 3 \<and> shape img ! (r - 3) \<noteq> 1) then
        Inl (ValueError
          (''Input size must have a shape of (*, 3, H, W) or (*, 1, H, W). Got '' @
           show_size (shape img)))
      else
        ebind (permute_arr [0, 2, 3, 1] img) (\<lambda>p.
        let out0 = amap (clamp (1 / 10 ^ 12) 1) p in
        ebind (awhere (amap (\<lambda>x. x \<le> 0.04045) out0)
                 (amap (\<lambda>x. x / 12.92) out0)
                 (amap (\<lambda>x. ((x + 0.055) / 1.055) powr 2.4) out0)) (\<lambda>out1.
        ebind (if shape img ! (r - 3) = 3
               then matmul_arr out1 \<lparr>shape = [3], elems = [0.2126, 0.7152, 0.0722]\<rparr>
               else Inr out1) (\<lambda>out2.
        ebind (abinop (*) out2 (amap (\<lambda>x. x * (24389 / 27)) out2)) (\<lambda>lin.
        ebind (awhere (amap (\<lambda>x. x \<le> 216 / 24389) out2) lin
                 (amap (\<lambda>x. x powr (1 / 3) * 116 - 16) out2)) (\<lambda>out3.
        Inr (amap (clamp 0 1) (amap (\<lambda>x. x / 100) out3))))))))"

definition rgb_to_linear_rgb :: "real arr \<Rightarrow> error + real arr" where
  "rgb_to_linear_rgb img =
     (let r = length (shape img) in
      if r < 3 \<or> shape img ! (r - 3) \<noteq> 3 then
        Inl (ValueError
          (''Input size must have a shape of (*, 3, H, W).Got '' @ show_size (shape img)))
      else awhere (amap (\<lambda>x. 0.04045 < x) img)
             (amap (\<lambda>x. ((x + 0.055) / 1.055) powr 2.4) img)
             (amap (\<lambda>x. x / 12.92) img))"

text \<open>
  \<^verbatim>\<open>c * x + d * y + e * z\<close> on three planes of one shape, as \<^verbatim>\<open>rgb_to_xyz\<close> forms it
  (left to right).
\<close>

definition lincomb :: "real \<Rightarrow> real arr \<Rightarrow> real \<Rightarrow> real arr \<Rightarrow> real \<Rightarrow> real arr
    \<Rightarrow> error + real arr" where
  "lincomb c x d y e z =
     ebind (abinop (+) (amap (\<lambda>v. c * v) x) (amap (\<lambda>v. d * v) y)) (\<lambda>s.
     abinop (+) s (amap (\<lambda>v. e * v) z))"

definition rgb_to_xyz :: "real arr \<Rightarrow> error + real arr" where
  "rgb_to_xyz img =
     (let n = length (shape img) in
      if n < 3 \<or> shape img ! (n - 3) \<noteq> 3 then
        Inl (ValueError
          (''Input size must have a shape of (*, 3, H, W). Got '' @ show_size (shape img)))
      else
        ebind (select_m3 0 img) (\<lambda>r.
        ebind (select_m3 1 img) (\<lambda>g.
        ebind (select_m3 2 img) (\<lambda>b.
        ebind (lincomb 0.412453 r 0.357580 g 0.180423 b) (\<lambda>x.
        ebind (lincomb 0.212671 r 0.715160 g 0.072169 b) (\<lambda>y.
        ebind (lincomb 0.019334 r 0.119193 g 0.950227 b) (\<lambda>z.
        stack_m3 x y z)))))))"

definition linear_rgb_to_lab_norm :: "real arr \<Rightarrow> error + real arr" where
  "linear_rgb_to_lab_norm lin_rgb =
     (let n = length (shape lin_rgb) in
      if n < 3 \<or> shape lin_rgb ! (n - 3) \<noteq> 3 then
        Inl (ValueError
          (''Input size must have a shape of (*, 3, H, W). Got '' @ show_size (shape lin_rgb)))
      else
        ebind (rgb_to_xyz lin_rgb) (\<lambda>xyz_im.
        let xyz_ref_white = \<lparr>shape = [3, 1, 1], elems = [0.95047, 1.0, 1.08883]\<rparr> in
        ebind (abinop (/) xyz_im xyz_ref_white) (\<lambda>xyz_normalized.
        let threshold = 0.008856;
            power = amap (\<lambda>v. v powr (1 / 3.0))
                      (amap (\<lambda>v. max v threshold) xyz_normalized);
            scale = amap (\<lambda>v. v + 4.0 / 29.0) (amap (\<lambda>v. 7.787 * v) xyz_normalized) in
        ebind (awhere (amap (\<lambda>v. threshold < v) xyz_normalized) power scale) (\<lambda>xyz_int.
        ebind (select_m3 0 xyz_int) (\<lambda>x.
        ebind (select_m3 1 xyz_int) (\<lambda>y.
        ebind (select_m3 2 xyz_int) (\<lambda>z.
        let L = amap (\<lambda>v. (116.0 * v - 16.0) / 100) y in
        ebind (abinop (-) x y) (\<lambda>xy.
        let a = amap (\<lambda>v. (500.0 * v + 128) / 255) xy in
        ebind (abinop (-) y z) (\<lambda>yz.
        let b = amap (\<lambda>v. (200.0 * v + 128) / 255) yz in
        stack_m3 L a b)))))))))"


section \<open>Predicates for the proofs about the store\<close>

text \<open>The exceptions PyTorch itself raises on operands that do not fit.\<close>

fun torch_err :: "error \<Rightarrow> bool" where
  "torch_err (RuntimeError _) = True"
| "torch_err (IndexError _) = True"
| "torch_err (Unmodelled _) = True"
| "torch_err _ = False"

text \<open>
  \<open>triple n m Q\<close>: run from a store of at least \<open>n\<close> buffers, \<open>m\<close> leaves the first \<open>n\<close>
  buffers as they are, raises nothing but an exception of PyTorch, and returns a result
  that satisfies \<open>Q\<close>.
\<close>

definition triple :: "nat \<Rightarrow> 'a torch \<Rightarrow> ('a \<Rightarrow> bool) \<Rightarrow> bool" where
  "triple n m Q \<longleftrightarrow>
     (\<forall>st. n \<le> length st \<longrightarrow>
        (case m st of (r, st') \<Rightarrow>
           n \<le> length st' \<and> take n st' = take n st \<and>
           (case r of Inl e \<Rightarrow> torch_err e | Inr x \<Rightarrow> Q x)))"

section \<open>The value of the inverse conversion\<close>

text \<open>
  \<open>rep st t v\<close>: in the store \<open>st\<close> the tensor \<open>t\<close> is allocated and has the value \<open>v\<close>.
  \<open>refines st m r\<close>: run from \<open>st\<close>, the computation \<open>m\<close> only adds buffers, and raises
  or returns a tensor of the value that \<open>r\<close> says. \<open>ycbcr2rgb_value\<close> is the value that
  \<^verbatim>\<open>ycbcr2rgb_pt\<close> computes, operation by operation (lemma \<open>ycbcr2rgb_pt_refines\<close>).
  \<open>at4 a b c i j\<close> is the element \<open>a[b, c, i, j]\<close> of a four-dimensional value, and
  \<open>wf4 a n c h w\<close> says that \<open>a\<close> has the shape \<open>(n, c, h, w)\<close> and as many elements.
\<close>

definition rep :: "store \<Rightarrow> tensor \<Rightarrow> real arr \<Rightarrow> bool" where
  "rep st t v \<longleftrightarrow> buf t < length st \<and> contents st t = v"

definition refines :: "store \<Rightarrow> tensor torch \<Rightarrow> (error + real arr) \<Rightarrow> bool" where
  "refines st m r \<longleftrightarrow>
     (\<exists>res bs. m st = (res, st @ bs) \<and>
        (case res of Inl e \<Rightarrow> r = Inl e | Inr t \<Rightarrow> \<exists>v. r = Inr v \<and> rep (st @ bs) t v))"

definition ycbcr2rgb_value :: "real arr \<Rightarrow> error + real arr" where
  "ycbcr2rgb_value v =
     (let a = amap (\<lambda>x. x * 255.0) v in
      ebind (slice1 0 (Some 1) a) (\<lambda>y.
      ebind (slice1 1 (Some 2) a) (\<lambda>cb.
      ebind (slice1 2 (Some 3) a) (\<lambda>cr.
      ebind (abinop (+) (amap (\<lambda>x. 1.164 * x) (amap (\<lambda>x. x - 16) y))
                        (amap (\<lambda>x. 1.596 * x) (amap (\<lambda>x. x - 128) cr))) (\<lambda>r.
      ebind (ebind (abinop (-) (amap (\<lambda>x. 1.164 * x) (amap (\<lambda>x. x - 16) y))
                               (amap (\<lambda>x. 0.392 * x) (amap (\<lambda>x. x - 128) cb))) (\<lambda>d.
             abinop (-) d (amap (\<lambda>x. 0.813 * x) (amap (\<lambda>x. x - 128) cr)))) (\<lambda>g.
      ebind (abinop (+) (amap (\<lambda>x. 1.164 * x) (amap (\<lambda>x. x - 16) y))
                        (amap (\<lambda>x. 2.017 * x) (amap (\<lambda>x. x - 128) cb))) (\<lambda>b.
      ebind (cat1 r g b) (\<lambda>rgb.
      Inr (amap (\<lambda>x. x / 255.0) rgb)))))))))"

definition at4 :: "'a arr \<Rightarrow> nat \<Rightarrow> nat \<Rightarrow> nat \<Rightarrow> nat \<Rightarrow> 'a" where
  "at4 a b c i j =
     elems a ! (((b * (shape a ! 1) + c) * (shape a ! 2) + i) * (shape a ! 3) + j)"

definition wf4 :: "'a arr \<Rightarrow> nat \<Rightarrow> nat \<Rightarrow> nat \<Rightarrow> nat \<Rightarrow> bool" where
  "wf4 a n c h w \<longleftrightarrow> shape a = [n, c, h, w] \<and> length (elems a) = n * c * h * w"

section \<open>Properties of the array functions\<close>

lemmas np_defs =
  rgb2ycbcr_def bgr2ycbcr_def ycbcr2rgb_def ycbcr2bgr_def convert_input_type_range_def
  convert_output_type_range_def astype_def idiv_def np_matmul_def np_iter_def np_dot_def
  np_add_vec_def np_mul_scalar_def np_add_scalar_def np_round_def chunks_def vecmat_def
  dotp_def cast_def rint_def trunc_def roundtrip_rgb_def roundtrip_bgr_def

text \<open>
  With \<^verbatim>\<open>y_only=False\<close> the value bound to \<^verbatim>\<open>out_img\<close> is a list display
  \<^verbatim>\<open>[*np.matmul(...), 16, 128, 128]\<close>, never an array, so whenever the code reaches the
  assertion the assertion fails; before it, only the dtype check and the matrix product
  can raise. The function returns on no input.
\<close>

lemma rgb2ycbcr_full_never_returns: "\<exists>e. rgb2ycbcr img False = Inl e"
  by (auto simp: rgb2ycbcr_def Let_def split: sum.splits pyobj.splits)

lemma bgr2ycbcr_full_never_returns: "\<exists>e. bgr2ycbcr img False = Inl e"
  by (auto simp: bgr2ycbcr_def Let_def split: sum.splits pyobj.splits)

lemma convert_input_valid:
  assumes "valid_image img"
  shows "\<exists>a. convert_input_type_range img = Inr a \<and> nshape a = nshape img"
  using assms
  by (auto simp: valid_image_def convert_input_type_range_def Let_def astype_def idiv_def)

lemma rgb2ycbcr_full_valid:
  assumes "valid_image img"
  shows "rgb2ycbcr img False = Inl (AssertionError [])"
proof -
  from convert_input_valid [OF assms] obtain a
    where a: "convert_input_type_range img = Inr a" "nshape a = nshape img" by blast
  from assms have sh: "nshape a \<noteq> []" "last (nshape a) = 3"
    by (simp_all add: valid_image_def a)
  then obtain m where m: "np_matmul a 3
       [[65.481, - 37.797, 112.0], [128.553, - 74.203, - 93.786], [24.966, 112.0, - 18.214]]
       = Inr m" "nshape m = butlast (nshape a) @ [3]"
    by (simp add: np_matmul_def)
  then have "nshape m \<noteq> []" by simp
  then have "\<exists>rows. np_iter m = Inr rows"
    by (simp add: np_iter_def split: list.splits)
  then obtain rows where "np_iter m = Inr rows" by blast
  with a m show ?thesis by (simp add: rgb2ycbcr_def)
qed

text \<open>
  The conversion as documented: the matrix product plus the offsets 16, 128, 128, converted
  back to the dtype of the input. It differs from \<open>rgb2ycbcr\<close> with \<^verbatim>\<open>y_only=False\<close> only
  in adding the offsets to the product, and says what the code was to return.
\<close>

lemma bt601_red_arithmetic:
  "(case convert_input_type_range \<lparr>dtype = uint8, nshape = [1, 3], items = [255, 0, 0]\<rparr> of
      Inl e \<Rightarrow> Inl e
    | Inr img1 \<Rightarrow>
       (case np_matmul img1 3
               [[65.481, - 37.797, 112.0], [128.553, - 74.203, - 93.786],
                [24.966, 112.0, - 18.214]] of
          Inl e \<Rightarrow> Inl e
        | Inr m \<Rightarrow> (case np_add_vec m [16, 128, 128] of
            Inl e \<Rightarrow> Inl e
          | Inr out \<Rightarrow> fst (convert_output_type_range out uint8))))
   = Inr \<lparr>dtype = uint8, nshape = [1, 3], items = [81, 90, 240]\<rparr>"
  by (simp add: np_defs upt_conv_Cons)

text \<open>
  The inverse conversion on the YCbCr pixel 154, 58, 168, which the documented arithmetic
  gives for the RGB pixel 225, 156, 21: \<open>ycbcr2rgb\<close> returns 225, 156, 19. Restoring the
  addition in the forward conversion does not by itself bring the round trip within one
  unit per sample.
\<close>

lemma documented_forward_sample:
  "(case convert_input_type_range \<lparr>dtype = uint8, nshape = [1, 3], items = [225, 156, 21]\<rparr> of
      Inl e \<Rightarrow> Inl e
    | Inr img1 \<Rightarrow>
       (case np_matmul img1 3
               [[65.481, - 37.797, 112.0], [128.553, - 74.203, - 93.786],
                [24.966, 112.0, - 18.214]] of
          Inl e \<Rightarrow> Inl e
        | Inr m \<Rightarrow> (case np_add_vec m [16, 128, 128] of
            Inl e \<Rightarrow> Inl e
          | Inr out \<Rightarrow> fst (convert_output_type_range out uint8))))
   = Inr \<lparr>dtype = uint8, nshape = [1, 3], items = [154, 58, 168]\<rparr>"
  by (simp add: np_defs upt_conv_Cons)

lemma inverse_of_documented_forward_sample:
  "ycbcr2rgb \<lparr>dtype = uint8, nshape = [1, 3], items = [154, 58, 168]\<rparr>
     = Inr \<lparr>dtype = uint8, nshape = [1, 3], items = [225, 156, 19]\<rparr>"
  by (simp add: np_defs upt_conv_Cons)

text \<open>
  Claim C1. For a valid image, \<^verbatim>\<open>rgb2ycbcr\<close> with \<^verbatim>\<open>y_only=False\<close> is to return the three
  channels of the BT.601 product plus the offsets 16, 128, 128, about 81, 90, 240 for the
  uint8 pixel 255, 0, 0. On that pixel the code raises \<^verbatim>\<open>AssertionError\<close> instead: the
  offsets are appended to a list of the rows of the product, and the list is not an array.
\<close>

theorem rgb2ycbcr_red_raises:
  "rgb2ycbcr \<lparr>dtype = uint8, nshape = [1, 3], items = [255, 0, 0]\<rparr> False
     = Inl (AssertionError [])"
  by (simp add: np_defs upt_conv_Cons)

text \<open>
  Claim C2. The round trip \<^verbatim>\<open>ycbcr2rgb(rgb2ycbcr(img))\<close> is to give back a uint8 image up
  to one unit per sample, and so is the BGR round trip. Both raise \<^verbatim>\<open>AssertionError\<close> in
  the forward conversion, here on the pixel 255, 0, 0, and give back nothing.
\<close>

theorem roundtrip_red_raises:
  "roundtrip_rgb \<lparr>dtype = uint8, nshape = [1, 3], items = [255, 0, 0]\<rparr>
     = Inl (AssertionError []) \<and>
   roundtrip_bgr \<lparr>dtype = uint8, nshape = [1, 3], items = [255, 0, 0]\<rparr>
     = Inl (AssertionError [])"
  by (simp add: np_defs upt_conv_Cons)

text \<open>
  Claim C3. The luma of \<^verbatim>\<open>rgb2ycbcr(img, y_only=True)\<close> is to equal the first channel of
  \<^verbatim>\<open>rgb2ycbcr(img, y_only=False)\<close>. On the pixel 255, 0, 0 the first call returns the luma
  81 and the second raises \<^verbatim>\<open>AssertionError\<close>: there is no first channel to compare with.
\<close>

theorem luma_only_without_counterpart:
  "rgb2ycbcr \<lparr>dtype = uint8, nshape = [1, 3], items = [255, 0, 0]\<rparr> True
     = Inr \<lparr>dtype = uint8, nshape = [1], items = [81]\<rparr> \<and>
   (\<exists>e. rgb2ycbcr \<lparr>dtype = uint8, nshape = [1, 3], items = [255, 0, 0]\<rparr> False = Inl e)"
  by (simp add: np_defs upt_conv_Cons)

lemma cast_float32: "map (cast float32) xs = xs"
  by (induction xs) (simp_all add: cast_def)

lemma astype_float32_id: "dtype img = float32 \<Longrightarrow> astype img float32 = img"
  by (cases img) (simp add: astype_def cast_float32)

text \<open>
  Claim C6. \<^verbatim>\<open>_convert_input_type_range\<close> raises exactly for a dtype other than uint8 and
  float32, with a \<^verbatim>\<open>TypeError\<close> that names the dtype; it divides a uint8 image by 255 as
  float32 and returns a float32 image unchanged. \<^verbatim>\<open>_convert_output_type_range\<close>, on a
  floating array, raises exactly for a target other than the two, with a \<^verbatim>\<open>TypeError\<close>
  that names the target; it rounds to the nearest integer for uint8 and divides by 255 for
  float32. When either raises there is no result and the argument is as it was.
\<close>

theorem normalizers_dtype_contract:
  "((\<exists>e. convert_input_type_range img = Inl e) \<longleftrightarrow> dtype img \<notin> {uint8, float32}) \<and>
   (dtype img \<notin> {uint8, float32} \<longrightarrow>
      convert_input_type_range img = Inl (TypeError
        (''The img type should be np.float32 or np.uint8, but got '' @ dtype_name (dtype img)))) \<and>
   (dtype img = uint8 \<longrightarrow>
      convert_input_type_range img =
        Inr \<lparr>dtype = float32, nshape = nshape img, items = map (\<lambda>x. x / 255) (items img)\<rparr>) \<and>
   (dtype img = float32 \<longrightarrow> convert_input_type_range img = Inr img) \<and>
   (is_float_dtype (dtype out) \<longrightarrow>
      ((\<exists>e. fst (convert_output_type_range out dst) = Inl e) \<longleftrightarrow> dst \<notin> {uint8, float32})) \<and>
   (dst \<notin> {uint8, float32} \<longrightarrow>
      convert_output_type_range out dst = (Inl (TypeError
        (''The dst_type should be np.float32 or np.uint8, but got '' @ dtype_name dst)), out)) \<and>
   (dst = uint8 \<longrightarrow>
      fst (convert_output_type_range out dst) =
        Inr \<lparr>dtype = uint8, nshape = nshape out, items = map (\<lambda>x. cast uint8 (rint x)) (items out)\<rparr>) \<and>
   (dst = float32 \<and> is_float_dtype (dtype out) \<longrightarrow>
      fst (convert_output_type_range out dst) =
        Inr \<lparr>dtype = float32, nshape = nshape out, items = map (\<lambda>x. x / 255) (items out)\<rparr>) \<and>
   (\<forall>e. fst (convert_output_type_range out dst) = Inl e \<longrightarrow>
      snd (convert_output_type_range out dst) = out)"
proof -
  have in1: "(\<exists>e. convert_input_type_range img = Inl e) \<longleftrightarrow> dtype img \<notin> {uint8, float32}"
    by (auto simp: convert_input_type_range_def Let_def idiv_def astype_def)
  have in2: "dtype img \<notin> {uint8, float32} \<longrightarrow>
      convert_input_type_range img = Inl (TypeError
        (''The img type should be np.float32 or np.uint8, but got '' @ dtype_name (dtype img)))"
    by (simp add: convert_input_type_range_def Let_def)
  have in3: "dtype img = uint8 \<longrightarrow>
      convert_input_type_range img =
        Inr \<lparr>dtype = float32, nshape = nshape img, items = map (\<lambda>x. x / 255) (items img)\<rparr>"
    by (simp add: convert_input_type_range_def Let_def idiv_def astype_def cast_def comp_def)
  have in4: "dtype img = float32 \<longrightarrow> convert_input_type_range img = Inr img"
    by (simp add: convert_input_type_range_def Let_def astype_float32_id)
  have out1: "is_float_dtype (dtype out) \<longrightarrow>
      ((\<exists>e. fst (convert_output_type_range out dst) = Inl e) \<longleftrightarrow> dst \<notin> {uint8, float32})"
    by (auto simp: convert_output_type_range_def idiv_def)
  have out2: "dst \<notin> {uint8, float32} \<longrightarrow>
      convert_output_type_range out dst = (Inl (TypeError
        (''The dst_type should be np.float32 or np.uint8, but got '' @ dtype_name dst)), out)"
    by (simp add: convert_output_type_range_def)
  have out3: "dst = uint8 \<longrightarrow>
      fst (convert_output_type_range out dst) =
        Inr \<lparr>dtype = uint8, nshape = nshape out, items = map (\<lambda>x. cast uint8 (rint x)) (items out)\<rparr>"
    by (simp add: convert_output_type_range_def astype_def np_round_def comp_def)
  have out4: "dst = float32 \<and> is_float_dtype (dtype out) \<longrightarrow>
      fst (convert_output_type_range out dst) =
        Inr \<lparr>dtype = float32, nshape = nshape out, items = map (\<lambda>x. x / 255) (items out)\<rparr>"
    by (simp add: convert_output_type_range_def astype_def idiv_def cast_def comp_def)
  have out5: "\<forall>e. fst (convert_output_type_range out dst) = Inl e \<longrightarrow>
      snd (convert_output_type_range out dst) = out"
    by (auto simp: convert_output_type_range_def split: sum.splits)
  from in1 in2 in3 in4 out1 out2 out3 out4 out5 show ?thesis by blast
qed

theorem normalizers_dtype_contract_witness:
  "convert_input_type_range \<lparr>dtype = float64, nshape = [1], items = [1 / 2]\<rparr>
     = Inl (TypeError ''The img type should be np.float32 or np.uint8, but got float64'') \<and>
   convert_input_type_range \<lparr>dtype = uint8, nshape = [2], items = [255, 51]\<rparr>
     = Inr \<lparr>dtype = float32, nshape = [2], items = [1, 1 / 5]\<rparr> \<and>
   convert_input_type_range \<lparr>dtype = float32, nshape = [1], items = [1 / 2]\<rparr>
     = Inr \<lparr>dtype = float32, nshape = [1], items = [1 / 2]\<rparr> \<and>
   convert_output_type_range \<lparr>dtype = float64, nshape = [1], items = [51]\<rparr> int32
     = (Inl (TypeError ''The dst_type should be np.float32 or np.uint8, but got int32''),
        \<lparr>dtype = float64, nshape = [1], items = [51]\<rparr>) \<and>
   fst (convert_output_type_range
          \<lparr>dtype = float64, nshape = [2], items = [161 / 2, 163 / 2]\<rparr> uint8)
     = Inr \<lparr>dtype = uint8, nshape = [2], items = [80, 82]\<rparr> \<and>
   fst (convert_output_type_range \<lparr>dtype = float64, nshape = [1], items = [51]\<rparr> float32)
     = Inr \<lparr>dtype = float32, nshape = [1], items = [1 / 5]\<rparr>"
  using
    normalizers_dtype_contract
      [of "\<lparr>dtype = float64, nshape = [1], items = [1 / 2]\<rparr>"
          "\<lparr>dtype = float64, nshape = [1], items = [51]\<rparr>" int32]
    normalizers_dtype_contract
      [of "\<lparr>dtype = uint8, nshape = [2], items = [255, 51]\<rparr>"
          "\<lparr>dtype = float64, nshape = [2], items = [161 / 2, 163 / 2]\<rparr>" uint8]
    normalizers_dtype_contract
      [of "\<lparr>dtype = float32, nshape = [1], items = [1 / 2]\<rparr>"
          "\<lparr>dtype = float64, nshape = [1], items = [51]\<rparr>" float32]
  by (simp add: cast_def rint_def trunc_def)

section \<open>Frame and exceptions of the tensor functions\<close>

lemma triple_ret: "Q x \<Longrightarrow> triple n (ret x) Q"
  by (simp add: triple_def ret_def)

lemma triple_raise: "torch_err e \<Longrightarrow> triple n (raise e) Q"
  by (simp add: triple_def raise_def)

lemma triple_bnd:
  assumes "triple n m Q" and "\<And>x. Q x \<Longrightarrow> triple n (f x) R"
  shows "triple n (bnd m f) R"
  unfolding triple_def
proof (intro allI impI)
  fix st :: store
  assume n: "n \<le> length st"
  obtain r st1 where m: "m st = (r, st1)" by (cases "m st")
  with assms(1) n have 1: "n \<le> length st1" "take n st1 = take n st"
    "case r of Inl e \<Rightarrow> torch_err e | Inr x \<Rightarrow> Q x"
    by (auto simp: triple_def)
  show "case bnd m f st of (r, st') \<Rightarrow>
           n \<le> length st' \<and> take n st' = take n st \<and>
           (case r of Inl e \<Rightarrow> torch_err e | Inr x \<Rightarrow> R x)"
  proof (cases r)
    case (Inl e)
    with m 1 show ?thesis by (simp add: bnd_def)
  next
    case (Inr x)
    with 1 have "Q x" by simp
    from assms(2) [OF this] 1(1) have "case f x st1 of (r, st') \<Rightarrow>
           n \<le> length st' \<and> take n st' = take n st1 \<and>
           (case r of Inl e \<Rightarrow> torch_err e | Inr x \<Rightarrow> R x)"
      by (simp add: triple_def)
    with m Inr 1 show ?thesis by (simp add: bnd_def split: prod.splits)
  qed
qed

lemma triple_weaken:
  assumes "triple n m Q" and "\<And>x. Q x \<Longrightarrow> Q' x"
  shows "triple n m Q'"
  unfolding triple_def
proof (intro allI impI)
  fix st :: store
  assume n: "n \<le> length st"
  obtain r st1 where m: "m st = (r, st1)" by (cases "m st")
  with assms(1) n have 1: "n \<le> length st1" "take n st1 = take n st"
    "case r of Inl e \<Rightarrow> torch_err e | Inr x \<Rightarrow> Q x"
    by (auto simp: triple_def)
  from 1(3) assms(2) have "case r of Inl e \<Rightarrow> torch_err e | Inr x \<Rightarrow> Q' x"
    by (cases r) simp_all
  with m 1 show "case m st of (r, st') \<Rightarrow>
           n \<le> length st' \<and> take n st' = take n st \<and>
           (case r of Inl e \<Rightarrow> torch_err e | Inr x \<Rightarrow> Q' x)"
    by simp
qed

lemma triple_new: "triple n (new_tensor a) (\<lambda>t. n \<le> buf t)"
  by (simp add: triple_def new_tensor_def)

lemma triple_unary:
  assumes "\<And>v e. f v = Inl e \<Longrightarrow> torch_err e"
  shows "triple n (t_unary f a) (\<lambda>t. n \<le> buf t)"
  unfolding triple_def
proof (intro allI impI)
  fix st :: store
  assume "n \<le> length st"
  then show "case t_unary f a st of (r, st') \<Rightarrow>
           n \<le> length st' \<and> take n st' = take n st \<and>
           (case r of Inl e \<Rightarrow> torch_err e | Inr x \<Rightarrow> n \<le> buf x)"
    by (cases "f (contents st a)") (simp_all add: t_unary_def new_tensor_def assms)
qed

lemma triple_binary:
  assumes "\<And>v w e. f v w = Inl e \<Longrightarrow> torch_err e"
  shows "triple n (t_binary f a b) (\<lambda>t. n \<le> buf t)"
  unfolding triple_def
proof (intro allI impI)
  fix st :: store
  assume "n \<le> length st"
  then show "case t_binary f a b st of (r, st') \<Rightarrow>
           n \<le> length st' \<and> take n st' = take n st \<and>
           (case r of Inl e \<Rightarrow> torch_err e | Inr x \<Rightarrow> n \<le> buf x)"
    by (cases "f (contents st a) (contents st b)")
       (simp_all add: t_binary_def new_tensor_def assms)
qed

lemma triple_view:
  assumes "\<And>v e. f v = Inl e \<Longrightarrow> torch_err e"
  shows "triple n (t_view f t) (\<lambda>t'. buf t' = buf t)"
  by (cases "f (view t)") (simp_all add: triple_def t_view_def ret_def raise_def assms)

lemma abinop_err: "abinop f a b = Inl e \<Longrightarrow> torch_err e"
  by (auto simp: abinop_def split: if_splits option.splits)

lemma matmul_arr_err: "matmul_arr a b = Inl e \<Longrightarrow> torch_err e"
  by (auto simp: matmul_arr_def split: if_splits list.splits)

lemma permute_arr_err: "permute_arr perm a = Inl e \<Longrightarrow> torch_err e"
  by (auto simp: permute_arr_def Let_def split: if_splits)

lemma slice1_err: "slice1 lo hi a = Inl e \<Longrightarrow> torch_err e"
  by (auto simp: slice1_def Let_def split: list.splits)

lemma reshape_arr_err: "reshape_arr sh a = Inl e \<Longrightarrow> torch_err e"
  by (auto simp: reshape_arr_def split: if_splits)

lemma cat1_err: "cat1 r g b = Inl e \<Longrightarrow> torch_err e"
  by (auto simp: cat1_def Let_def split: if_splits list.splits)

lemma triple_map: "triple n (t_map f a) (\<lambda>t. n \<le> buf t)"
  unfolding t_map_def by (rule triple_unary) simp

lemma triple_matmul: "triple n (t_matmul a b) (\<lambda>t. n \<le> buf t)"
  unfolding t_matmul_def by (rule triple_binary) (rule matmul_arr_err)

lemma triple_add: "triple n (t_add a b) (\<lambda>t. n \<le> buf t)"
  unfolding t_add_def by (rule triple_binary) (rule abinop_err)

lemma triple_sub: "triple n (t_sub a b) (\<lambda>t. n \<le> buf t)"
  unfolding t_sub_def by (rule triple_binary) (rule abinop_err)

lemma triple_cat1: "triple n (t_cat1 r g b) (\<lambda>t. n \<le> buf t)"
  unfolding triple_def
proof (intro allI impI)
  fix st :: store
  assume "n \<le> length st"
  then show "case t_cat1 r g b st of (r, st') \<Rightarrow>
           n \<le> length st' \<and> take n st' = take n st \<and>
           (case r of Inl e \<Rightarrow> torch_err e | Inr x \<Rightarrow> n \<le> buf x)"
    by (cases "cat1 (contents st r) (contents st g) (contents st b)")
       (simp_all add: t_cat1_def new_tensor_def cat1_err)
qed

lemma triple_permute: "triple n (t_permute perm t) (\<lambda>t'. buf t' = buf t)"
  unfolding t_permute_def by (rule triple_view) (rule permute_arr_err)

lemma triple_slice1: "triple n (t_slice1 lo hi t) (\<lambda>t'. buf t' = buf t)"
  unfolding t_slice1_def by (rule triple_view) (rule slice1_err)

lemma triple_reshape: "triple n (t_reshape sh t) (\<lambda>t'. buf t' = buf t)"
  unfolding t_reshape_def by (rule triple_view) (rule reshape_arr_err)

lemma triple_assign:
  assumes "n \<le> buf dst"
  shows "triple n (t_assign dst src) (\<lambda>_. True)"
  using assms by (simp add: triple_def t_assign_def Let_def)

lemmas triple_prims =
  triple_new triple_map triple_matmul triple_add triple_sub triple_cat1
  triple_permute triple_slice1 triple_reshape

lemma rgb2ycbcr_pt_triple: "triple n (rgb2ycbcr_pt img y_only) (\<lambda>t. n \<le> buf t)"
  unfolding rgb2ycbcr_pt_def
  by (cases y_only; simp only: if_True if_False)
     (rule triple_bnd triple_prims)+

lemma ycbcr2rgb_pt_triple: "triple n (ycbcr2rgb_pt img) (\<lambda>t. n \<le> buf t)"
  unfolding ycbcr2rgb_pt_def
  by (rule triple_bnd triple_prims)+

lemma rgb2pixelformat_pt_triple:
  assumes "pixel_format = PF_rgb \<or> pixel_format = PF_yuv444 \<or> pixel_format = PF_y"
  shows "triple n (rgb2pixelformat_pt img pixel_format) (\<lambda>t. True)"
  using assms unfolding rgb2pixelformat_pt_def
  by (auto intro!: triple_ret triple_bnd [OF rgb2ycbcr_pt_triple]
        triple_weaken [OF rgb2ycbcr_pt_triple] triple_weaken [OF triple_slice1])

lemma pixelformat2rgb_pt_luma_triple:
  "triple n (pixelformat2rgb_pt img (Some ref) PF_y) (\<lambda>t. n \<le> buf t)"
  unfolding pixelformat2rgb_pt_def
  apply (simp only: PixelFormat.case option.case)
  apply (rule triple_bnd [OF rgb2ycbcr_pt_triple])
  apply (rule triple_bnd [OF triple_slice1])
  apply (rule triple_bnd [OF triple_assign])
   apply simp
  apply (rule ycbcr2rgb_pt_triple)
  done

lemma pixelformat2rgb_pt_chroma_triple:
  "triple n (pixelformat2rgb_pt img (Some ref) PF_uv) (\<lambda>t. n \<le> buf t)"
  unfolding pixelformat2rgb_pt_def
  apply (simp only: PixelFormat.case option.case)
  apply (rule triple_bnd [OF rgb2ycbcr_pt_triple])
  apply (rule triple_bnd [OF triple_slice1])
  apply (rule triple_bnd [OF triple_assign])
   apply simp
  apply (rule ycbcr2rgb_pt_triple)
  done


lemma triple_result:
  assumes "triple n m Q" and "n \<le> length st"
  shows "n \<le> length (snd (m st))" and "take n (snd (m st)) = take n st"
    and "fst (m st) = Inl e \<Longrightarrow> torch_err e"
proof -
  obtain r st1 where m: "m st = (r, st1)" by (cases "m st")
  from assms(1) [unfolded triple_def, rule_format, OF assms(2)] m
  have *: "n \<le> length st1" "take n st1 = take n st"
    "case r of Inl e \<Rightarrow> torch_err e | Inr x \<Rightarrow> Q x"
    by simp_all
  from * m show "n \<le> length (snd (m st))" "take n (snd (m st)) = take n st" by simp_all
  from * m show "fst (m st) = Inl e \<Longrightarrow> torch_err e" by (cases r) simp_all
qed

text \<open>
  Assignment to a slice writes into the buffer of the sliced tensor, and only there:
  \<^verbatim>\<open>t[:, 0:1, :, :] = src\<close> and \<^verbatim>\<open>t[:, 1:, :, :] = src\<close> on a tensor of shape \<open>(2, 3, 1, 1)\<close>.
\<close>

lemma luma_slice_assignment:
  "bnd (t_slice1 0 (Some 1)
          \<lparr>buf = 0, view = \<lparr>shape = [2, 3, 1, 1], elems = [0, 1, 2, 3, 4, 5]\<rparr>\<rparr>)
       (\<lambda>luma. t_assign luma \<lparr>buf = 1, view = \<lparr>shape = [2, 1, 1, 1], elems = [0, 1]\<rparr>\<rparr>)
       [[10, 11, 12, 13, 14, 15], [7, 8]]
   = (Inr (), [[7, 11, 12, 8, 14, 15], [7, 8]])"
  by (simp add: bnd_def t_slice1_def t_view_def slice1_def ret_def raise_def t_assign_def
        contents_def amap_def bshape_def Let_def chunks_def upt_conv_Cons)

lemma chroma_slice_assignment:
  "bnd (t_slice1 1 None
          \<lparr>buf = 0, view = \<lparr>shape = [2, 3, 1, 1], elems = [0, 1, 2, 3, 4, 5]\<rparr>\<rparr>)
       (\<lambda>chroma. t_assign chroma
          \<lparr>buf = 1, view = \<lparr>shape = [2, 2, 1, 1], elems = [0, 1, 2, 3]\<rparr>\<rparr>)
       [[10, 11, 12, 13, 14, 15], [6, 7, 8, 9]]
   = (Inr (), [[10, 6, 7, 13, 8, 9], [6, 7, 8, 9]])"
  by (simp add: bnd_def t_slice1_def t_view_def slice1_def ret_def raise_def t_assign_def
        contents_def amap_def bshape_def Let_def chunks_def upt_conv_Cons)

text \<open>
  Claim C10. For the tags \<^verbatim>\<open>y\<close> and \<^verbatim>\<open>uv\<close> with a reference tensor, \<^verbatim>\<open>pixelformat2rgb_pt\<close>
  leaves the reference as it was: the slice assignment goes to the buffer that
  \<^verbatim>\<open>rgb2ycbcr_pt\<close> allocated during the call, so every buffer that existed before the call,
  the reference's among them, holds afterwards what it held before, whether the call
  returns or raises.
\<close>

theorem reference_not_modified:
  assumes "buf ref < length st" and "pixel_format = PF_y \<or> pixel_format = PF_uv"
  shows "take (length st) (snd (pixelformat2rgb_pt img (Some ref) pixel_format st)) = st \<and>
         contents (snd (pixelformat2rgb_pt img (Some ref) pixel_format st)) ref
           = contents st ref"
proof -
  let ?st' = "snd (pixelformat2rgb_pt img (Some ref) pixel_format st)"
  have "triple (length st) (pixelformat2rgb_pt img (Some ref) pixel_format)
          (\<lambda>t. length st \<le> buf t)"
    using assms(2) pixelformat2rgb_pt_luma_triple pixelformat2rgb_pt_chroma_triple by blast
  from triple_result(2) [OF this, of st] have keep: "take (length st) ?st' = st" by simp
  then have "?st' ! buf ref = st ! buf ref"
    using assms(1) by (metis nth_take)
  with keep show ?thesis by (simp add: contents_def)
qed

theorem reference_not_modified_witness:
  "buf \<lparr>buf = 0, view = \<lparr>shape = [1, 3, 1, 1], elems = [0, 1, 2]\<rparr>\<rparr>
     < length [[1, 1 / 2, 0], [1 / 4 :: real]] \<and>
   contents (snd (pixelformat2rgb_pt
                \<lparr>buf = 1, view = \<lparr>shape = [1, 1, 1, 1], elems = [0]\<rparr>\<rparr>
                (Some \<lparr>buf = 0, view = \<lparr>shape = [1, 3, 1, 1], elems = [0, 1, 2]\<rparr>\<rparr>)
                PF_y [[1, 1 / 2, 0], [1 / 4]]))
      \<lparr>buf = 0, view = \<lparr>shape = [1, 3, 1, 1], elems = [0, 1, 2]\<rparr>\<rparr>
     = \<lparr>shape = [1, 3, 1, 1], elems = [1, 1 / 2, 0]\<rparr>"
  using reference_not_modified
    [of "\<lparr>buf = 0, view = \<lparr>shape = [1, 3, 1, 1], elems = [0, 1, 2]\<rparr>\<rparr>"
        "[[1, 1 / 2, 0], [1 / 4]]" PF_y
        "\<lparr>buf = 1, view = \<lparr>shape = [1, 1, 1, 1], elems = [0]\<rparr>\<rparr>"]
  by (simp add: contents_def amap_def)

lemma inverse_with_reference_errors:
  assumes "pixel_format = PF_y \<or> pixel_format = PF_uv"
    and "fst (pixelformat2rgb_pt img (Some ref) pixel_format st) = Inl e"
  shows "torch_err e"
proof -
  have "triple 0 (pixelformat2rgb_pt img (Some ref) pixel_format) (\<lambda>t. 0 \<le> buf t)"
    using assms(1) pixelformat2rgb_pt_luma_triple pixelformat2rgb_pt_chroma_triple by blast
  from triple_result(3) [OF this _ assms(2)] show ?thesis by simp
qed

lemma inverse_yuv444_errors:
  assumes "fst (pixelformat2rgb_pt img ref PF_yuv444 st) = Inl e"
  shows "torch_err e"
proof -
  from assms have "fst (ycbcr2rgb_pt img st) = Inl e"
    by (simp add: pixelformat2rgb_pt_def)
  from triple_result(3) [OF ycbcr2rgb_pt_triple _ this, of 0] show ?thesis by simp
qed

lemma inverse_with_reference_no_assertion:
  assumes "pixel_format = PF_y \<or> pixel_format = PF_uv"
  shows "fst (pixelformat2rgb_pt img (Some ref) pixel_format st) \<noteq> Inl (AssertionError msg)"
proof
  assume "fst (pixelformat2rgb_pt img (Some ref) pixel_format st) = Inl (AssertionError msg)"
  from inverse_with_reference_errors [OF assms this] show False by simp
qed

lemma inverse_yuv444_no_assertion:
  "fst (pixelformat2rgb_pt img ref PF_yuv444 st) \<noteq> Inl (AssertionError msg)"
proof
  assume "fst (pixelformat2rgb_pt img ref PF_yuv444 st) = Inl (AssertionError msg)"
  from inverse_yuv444_errors [OF this] show False by simp
qed

lemma inverse_assertion_iff:
  "fst (pixelformat2rgb_pt img ref pixel_format st) = Inl (AssertionError msg) \<longleftrightarrow>
     ref = None \<and>
     (pixel_format = PF_y \<and> msg = ''gt is required for luma pixel format'' \<or>
      pixel_format = PF_uv \<and> msg = ''gt is required for chroma pixel format'')"
proof (cases pixel_format)
  case PF_yuv444
  then show ?thesis by (simp add: inverse_yuv444_no_assertion)
next
  case PF_y
  then show ?thesis
    by (cases ref)
       (auto simp: inverse_with_reference_no_assertion, simp_all add: pixelformat2rgb_pt_def raise_def)
next
  case PF_uv
  then show ?thesis
    by (cases ref)
       (auto simp: inverse_with_reference_no_assertion, simp_all add: pixelformat2rgb_pt_def raise_def)
qed (simp_all add: pixelformat2rgb_pt_def raise_def ret_def)

text \<open>
  Claim C5. \<^verbatim>\<open>pixelformat2rgb_pt\<close> fails its assertion with the message
  \<^verbatim>\<open>gt is required for luma pixel format\<close> exactly for the tag \<^verbatim>\<open>y\<close> without a reference,
  and with \<^verbatim>\<open>gt is required for chroma pixel format\<close> exactly for the tag \<^verbatim>\<open>uv\<close> without a
  reference; it raises \<^verbatim>\<open>NotImplementedError\<close> for the tag \<^verbatim>\<open>gray\<close>. \<^verbatim>\<open>rgb2pixelformat_pt\<close>
  raises \<^verbatim>\<open>NotImplementedError\<close> for the tags \<^verbatim>\<open>gray\<close> and \<^verbatim>\<open>uv\<close>.
\<close>

theorem dispatcher_errors:
  "(fst (pixelformat2rgb_pt img ref pixel_format st)
      = Inl (AssertionError ''gt is required for luma pixel format''))
     = (pixel_format = PF_y \<and> ref = None) \<and>
   (fst (pixelformat2rgb_pt img ref pixel_format st)
      = Inl (AssertionError ''gt is required for chroma pixel format''))
     = (pixel_format = PF_uv \<and> ref = None) \<and>
   (\<exists>msg. fst (pixelformat2rgb_pt img ref pixel_format st) = Inl (AssertionError msg))
     = ((pixel_format = PF_y \<or> pixel_format = PF_uv) \<and> ref = None) \<and>
   pixelformat2rgb_pt img ref PF_gray st = (Inl (NotImplementedError []), st) \<and>
   rgb2pixelformat_pt img PF_gray st = (Inl (NotImplementedError []), st) \<and>
   rgb2pixelformat_pt img PF_uv st = (Inl (NotImplementedError []), st)"
proof -
  have "(fst (pixelformat2rgb_pt img ref pixel_format st)
      = Inl (AssertionError ''gt is required for luma pixel format''))
     = (pixel_format = PF_y \<and> ref = None)"
    by (auto simp: inverse_assertion_iff)
  moreover have "(fst (pixelformat2rgb_pt img ref pixel_format st)
      = Inl (AssertionError ''gt is required for chroma pixel format''))
     = (pixel_format = PF_uv \<and> ref = None)"
    by (auto simp: inverse_assertion_iff)
  moreover have "(\<exists>msg. fst (pixelformat2rgb_pt img ref pixel_format st) = Inl (AssertionError msg))
     = ((pixel_format = PF_y \<or> pixel_format = PF_uv) \<and> ref = None)"
    by (auto simp: inverse_assertion_iff)
  moreover have "pixelformat2rgb_pt img ref PF_gray st = (Inl (NotImplementedError []), st)"
    by (simp add: pixelformat2rgb_pt_def raise_def)
  moreover have "rgb2pixelformat_pt img PF_gray st = (Inl (NotImplementedError []), st)"
    "rgb2pixelformat_pt img PF_uv st = (Inl (NotImplementedError []), st)"
    by (simp_all add: rgb2pixelformat_pt_def raise_def)
  ultimately show ?thesis by blast
qed


section \<open>The inverse conversion on tensors in closed form\<close>

lemma ebind_Inr: "ebind (Inr x) f = f x"
  by (simp add: ebind_def)

lemma rep_append: "rep st t v \<Longrightarrow> rep (st @ bs) t v"
  by (auto simp: rep_def contents_def nth_append)

lemma rep_new:
  "rep (st @ [elems v]) \<lparr>buf = length st, view = \<lparr>shape = shape v, elems = [0..<length (elems v)]\<rparr>\<rparr> v"
  by (simp add: rep_def contents_def amap_def map_nth)

lemma refines_map: "rep st a v \<Longrightarrow> refines st (t_map f a) (Inr (amap f v))"
  unfolding refines_def
  apply (rule exI [of _ "Inr \<lparr>buf = length st, view = \<lparr>shape = shape v, elems = [0..<length (elems v)]\<rparr>\<rparr>"])
  apply (rule exI [of _ "[map f (elems v)]"])
  using rep_new [of st "amap f v"]
  apply (auto simp: t_map_def t_unary_def new_tensor_def rep_def amap_def contents_def)
  done

lemma refines_binary:
  assumes "rep st a va" "rep st b vb"
  shows "refines st (t_binary f a b) (f va vb)"
proof (cases "f va vb")
  case (Inl e)
  with assms show ?thesis
    by (auto simp: refines_def t_binary_def rep_def intro!: exI [of _ "[]"])
next
  case (Inr v)
  with assms rep_new [of st v] show ?thesis
    by (auto simp: refines_def t_binary_def rep_def new_tensor_def)
qed

lemma refines_add: "rep st a va \<Longrightarrow> rep st b vb \<Longrightarrow> refines st (t_add a b) (abinop (+) va vb)"
  unfolding t_add_def by (rule refines_binary)

lemma refines_sub: "rep st a va \<Longrightarrow> rep st b vb \<Longrightarrow> refines st (t_sub a b) (abinop (-) va vb)"
  unfolding t_sub_def by (rule refines_binary)

lemma refines_cat1:
  assumes "rep st r vr" "rep st g vg" "rep st b vb"
  shows "refines st (t_cat1 r g b) (cat1 vr vg vb)"
proof (cases "cat1 vr vg vb")
  case (Inl e)
  with assms show ?thesis
    by (auto simp: refines_def t_cat1_def rep_def intro!: exI [of _ "[]"])
next
  case (Inr v)
  with assms rep_new [of st v] show ?thesis
    by (auto simp: refines_def t_cat1_def rep_def new_tensor_def)
qed

lemma chunks_map: "chunks k m (map g xs) = map (map g) (chunks k m xs)"
  by (simp add: chunks_def take_map drop_map)

lemma slice1_amap: "slice1 lo hi (amap g a) = map_sum id (amap g) (slice1 lo hi a)"
  by (simp add: slice1_def amap_def Let_def chunks_map map_concat take_map drop_map comp_def
        split: list.splits)

lemma refines_slice1:
  assumes "rep st t v"
  shows "refines st (t_slice1 lo hi t) (slice1 lo hi v)"
proof -
  from assms have v: "v = amap (\<lambda>i. st ! buf t ! i) (view t)" and b: "buf t < length st"
    by (simp_all add: rep_def contents_def)
  show ?thesis
  proof (cases "slice1 lo hi (view t)")
    case (Inl e)
    then show ?thesis
      by (auto simp: refines_def t_slice1_def t_view_def raise_def v slice1_amap
            intro!: exI [of _ "[]"])
  next
    case (Inr w)
    with b show ?thesis
      by (auto simp: refines_def t_slice1_def t_view_def ret_def v slice1_amap rep_def
            contents_def intro!: exI [of _ "[]"])
  qed
qed

lemma refines_bnd:
  assumes "refines st m r"
    and "\<And>t bs v. rep (st @ bs) t v \<Longrightarrow> refines (st @ bs) (f t) (g v)"
  shows "refines st (bnd m f) (ebind r g)"
proof -
  from assms(1) obtain res bs where m: "m st = (res, st @ bs)"
    and res: "case res of Inl e \<Rightarrow> r = Inl e | Inr t \<Rightarrow> \<exists>v. r = Inr v \<and> rep (st @ bs) t v"
    by (auto simp: refines_def)
  show ?thesis
  proof (cases res)
    case (Inl e)
    with m res show ?thesis by (auto simp: refines_def bnd_def ebind_def)
  next
    case (Inr t)
    with res obtain v where v: "r = Inr v" "rep (st @ bs) t v" by auto
    from assms(2) [OF v(2)] obtain res' bs' where
      f: "f t (st @ bs) = (res', (st @ bs) @ bs')"
      and res': "case res' of Inl e \<Rightarrow> g v = Inl e
                 | Inr t' \<Rightarrow> \<exists>v'. g v = Inr v' \<and> rep ((st @ bs) @ bs') t' v'"
      by (auto simp: refines_def)
    show ?thesis
      unfolding refines_def
      apply (rule exI [of _ res'], rule exI [of _ "bs @ bs'"])
      using m Inr f res' v(1) by (cases res') (auto simp: bnd_def ebind_def)
  qed
qed

lemma refines_eq: "refines st m r \<Longrightarrow> r = r' \<Longrightarrow> refines st m r'"
  by simp

lemma ycbcr2rgb_pt_refines:
  assumes "rep st img v"
  shows "refines st (ycbcr2rgb_pt img) (ycbcr2rgb_value v)"
  unfolding ycbcr2rgb_pt_def
  apply (rule refines_eq)
   apply (rule refines_bnd refines_map refines_add refines_sub refines_cat1 refines_slice1 assms
           | assumption | rule rep_append)+
  apply (simp only: ycbcr2rgb_value_def Let_def ebind_Inr)
  done

lemma block_index_bound:
  fixes c q k m :: nat
  assumes "c < k" "q < m"
  shows "c * m + q < k * m"
proof -
  have "c * m + q < c * m + m" using assms(2) by simp
  also have "\<dots> = Suc c * m" by simp
  also have "\<dots> \<le> k * m" using assms(1) by (intro mult_le_mono1) simp
  finally show ?thesis .
qed

lemma length_concat_blocks:
  assumes "\<And>i. i < k \<Longrightarrow> length (f i) = m"
  shows "length (concat (map f [0..<k])) = k * m"
  using assms by (induction k) simp_all

lemma nth_concat_blocks:
  assumes "\<And>i. i < k \<Longrightarrow> length (f i) = m" and "b < k" and "p < m"
  shows "concat (map f [0..<k]) ! (b * m + p) = f b ! p"
  using assms
proof (induction k)
  case 0
  then show ?case by simp
next
  case (Suc k)
  have len: "length (concat (map f [0..<k])) = k * m"
    using Suc.prems(1) by (intro length_concat_blocks) simp
  show ?case
  proof (cases "b < k")
    case True
    then have "b * m + p < k * m" using Suc.prems(3) by (rule block_index_bound)
    with True Suc show ?thesis by (simp add: nth_append len)
  next
    case False
    with Suc.prems(2) have "b = k" by simp
    then show ?thesis by (simp add: nth_append len)
  qed
qed

text \<open>A block of a list cut into \<open>n\<close> blocks of length \<open>m\<close>.\<close>

lemma block_length:
  assumes "length xs = n * m" "i < n"
  shows "length (take m (drop (i * m) xs)) = m"
proof -
  have "Suc i * m \<le> n * m" using assms(2) by (intro mult_le_mono1) simp
  then show ?thesis using assms(1) by simp
qed

lemma block_nth:
  assumes "length xs = n * m" "i < n" "p < m"
  shows "take m (drop (i * m) xs) ! p = xs ! (i * m + p)"
proof -
  have "i * m + p < n * m" using assms(2,3) by (rule block_index_bound)
  then show ?thesis using assms by simp
qed

lemma nth_append3:
  assumes "length xs = m" "length ys = m" "q < m"
  shows "(xs @ ys @ zs) ! q = xs ! q"
    and "(xs @ ys @ zs) ! (m + q) = ys ! q"
    and "(xs @ ys @ zs) ! (2 * m + q) = zs ! q"
  using assms by (simp_all add: nth_append)

lemma wf4_index_bound:
  fixes b c i j n k h w :: nat
  assumes "b < n" "c < k" "i < h" "j < w"
  shows "((b * k + c) * h + i) * w + j < n * k * h * w"
proof -
  have "b * k + c < n * k" using assms(1,2) by (rule block_index_bound)
  then have "(b * k + c) * h + i < n * k * h" using assms(3) by (rule block_index_bound)
  then show ?thesis using assms(4) by (rule block_index_bound)
qed

lemma amap_at4:
  assumes "wf4 a n k h w"
  shows "wf4 (amap f a) n k h w"
    and "b < n \<Longrightarrow> c < k \<Longrightarrow> i < h \<Longrightarrow> j < w \<Longrightarrow> at4 (amap f a) b c i j = f (at4 a b c i j)"
proof -
  show "wf4 (amap f a) n k h w" using assms by (simp add: wf4_def amap_def)
  assume "b < n" "c < k" "i < h" "j < w"
  from wf4_index_bound [OF this] assms
  show "at4 (amap f a) b c i j = f (at4 a b c i j)"
    by (simp add: wf4_def amap_def at4_def)
qed

lemma abinop_at4:
  assumes "wf4 x n k h w" "wf4 y n k h w"
  shows "\<exists>s. abinop f x y = Inr s \<and> wf4 s n k h w \<and>
           (\<forall>b c i j. b < n \<and> c < k \<and> i < h \<and> j < w \<longrightarrow>
              at4 s b c i j = f (at4 x b c i j) (at4 y b c i j))"
proof -
  let ?s = "\<lparr>shape = shape x, elems = map (\<lambda>(u, v). f u v) (zip (elems x) (elems y))\<rparr>"
  have eq: "abinop f x y = Inr ?s" using assms by (simp add: abinop_def wf4_def)
  have wf: "wf4 ?s n k h w" using assms by (simp add: wf4_def)
  have "at4 ?s b c i j = f (at4 x b c i j) (at4 y b c i j)"
    if "b < n" "c < k" "i < h" "j < w" for b c i j
    using wf4_index_bound [OF that] assms by (simp add: wf4_def at4_def)
  with eq wf show ?thesis by blast
qed


lemma slice1_at4:
  assumes "wf4 a n k h w" "lo < hi" "hi \<le> k"
  shows "\<exists>s. slice1 lo (Some hi) a = Inr s \<and> wf4 s n (hi - lo) h w \<and>
           (\<forall>b c i j. b < n \<and> c < hi - lo \<and> i < h \<and> j < w \<longrightarrow>
              at4 s b c i j = at4 a b (lo + c) i j)"
proof -
  define m where "m = h * w"
  define A where "A = elems a"
  define F where
    "F = (\<lambda>i. take ((hi - lo) * m) (drop (lo * m) (take (k * m) (drop (i * (k * m)) A))))"
  let ?s = "\<lparr>shape = [n, hi - lo, h, w], elems = concat (map F [0..<n])\<rparr>"
  from assms(1) have sh: "shape a = [n, k, h, w]" and len: "length A = n * (k * m)"
    by (simp_all add: wf4_def A_def m_def mult.assoc)
  have eq: "slice1 lo (Some hi) a = Inr ?s"
    using sh assms(2,3)
    by (simp add: slice1_def Let_def chunks_def comp_def F_def A_def m_def min_def max_def)
  have room: "(hi - lo) * m \<le> k * m - lo * m"
  proof -
    have "hi - lo \<le> k - lo" using assms(3) by simp
    then have "(hi - lo) * m \<le> (k - lo) * m" by (rule mult_le_mono1)
    then show ?thesis by (simp add: diff_mult_distrib)
  qed
  have lenF: "length (F i) = (hi - lo) * m" if "i < n" for i
  proof -
    have "length (take (k * m) (drop (i * (k * m)) A)) = k * m"
      using len that by (rule block_length)
    moreover note room
    ultimately show ?thesis using room by (simp add: F_def)
  qed
  have nthF: "F i ! p = A ! (i * (k * m) + (lo * m + p))" if "i < n" "p < (hi - lo) * m" for i p
  proof -
    from that(2) room have p: "lo * m + p < k * m" by simp
    define X where "X = take (k * m) (drop (i * (k * m)) A)"
    have lenX: "length X = k * m"
      unfolding X_def using len that(1) by (rule block_length)
    have "F i ! p = drop (lo * m) X ! p"
      using that(2) by (simp add: F_def X_def)
    also have "\<dots> = X ! (lo * m + p)"
      using lenX assms(2,3) by (intro nth_drop) simp
    finally have "F i ! p = take (k * m) (drop (i * (k * m)) A) ! (lo * m + p)"
      by (simp only: X_def)
    also have "\<dots> = A ! (i * (k * m) + (lo * m + p))"
      using len that(1) p by (rule block_nth)
    finally show ?thesis .
  qed
  have wf: "wf4 ?s n (hi - lo) h w"
    using length_concat_blocks [of n F "(hi - lo) * m"] lenF
    by (simp add: wf4_def m_def mult.assoc)
  have "at4 ?s b c i j = at4 a b (lo + c) i j"
    if "b < n" "c < hi - lo" "i < h" "j < w" for b c i j
  proof -
    have "c * h + i < (hi - lo) * h" using that(2,3) by (rule block_index_bound)
    then have p: "(c * h + i) * w + j < (hi - lo) * m"
      unfolding m_def mult.assoc [symmetric] using that(4) by (rule block_index_bound)
    have "at4 ?s b c i j = concat (map F [0..<n]) ! (b * ((hi - lo) * m) + ((c * h + i) * w + j))"
      by (simp add: at4_def m_def algebra_simps)
    also have "\<dots> = F b ! ((c * h + i) * w + j)"
      using lenF that(1) p by (rule nth_concat_blocks)
    also have "\<dots> = A ! (b * (k * m) + (lo * m + ((c * h + i) * w + j)))"
      using that(1) p by (rule nthF)
    also have "\<dots> = at4 a b (lo + c) i j"
      by (simp add: at4_def sh A_def m_def algebra_simps)
    finally show ?thesis .
  qed
  with eq wf show ?thesis by blast
qed

lemma cat1_at4:
  assumes "wf4 r n 1 h w" "wf4 g n 1 h w" "wf4 b n 1 h w"
  shows "\<exists>s. cat1 r g b = Inr s \<and> wf4 s n 3 h w \<and>
           (\<forall>p i j. p < n \<and> i < h \<and> j < w \<longrightarrow>
              at4 s p 0 i j = at4 r p 0 i j \<and>
              at4 s p 1 i j = at4 g p 0 i j \<and>
              at4 s p 2 i j = at4 b p 0 i j)"
proof -
  define m where "m = h * w"
  define F where
    "F = (\<lambda>i. take m (drop (i * m) (elems r)) @ take m (drop (i * m) (elems g)) @
      take m (drop (i * m) (elems b)))"
  let ?s = "\<lparr>shape = [n, 3, h, w], elems = concat (map F [0..<n])\<rparr>"
  from assms have sh: "shape r = [n, 1, h, w]" "shape g = [n, 1, h, w]" "shape b = [n, 1, h, w]"
    and len: "length (elems r) = n * m" "length (elems g) = n * m" "length (elems b) = n * m"
    by (simp_all add: wf4_def m_def mult.assoc)
  have eq: "cat1 r g b = Inr ?s"
    using sh by (simp add: cat1_def Let_def F_def m_def)
  have lenF: "length (F i) = 3 * m" if "i < n" for i
    using block_length [OF len(1) that] block_length [OF len(2) that]
      block_length [OF len(3) that]
    by (simp add: F_def)
  have wf: "wf4 ?s n 3 h w"
    using length_concat_blocks [of n F "3 * m"] lenF
    by (simp add: wf4_def m_def mult.assoc)
  have "at4 ?s p 0 i j = at4 r p 0 i j \<and> at4 ?s p 1 i j = at4 g p 0 i j \<and>
        at4 ?s p 2 i j = at4 b p 0 i j"
    if "p < n" "i < h" "j < w" for p i j
  proof -
    have q: "i * w + j < m" unfolding m_def using that(2,3) by (rule block_index_bound)
    have blk: "length (take m (drop (p * m) (elems r))) = m"
      "length (take m (drop (p * m) (elems g))) = m"
      "length (take m (drop (p * m) (elems b))) = m"
      using block_length [OF len(1) that(1)] block_length [OF len(2) that(1)]
        block_length [OF len(3) that(1)] by simp_all
    have nth: "take m (drop (p * m) (elems r)) ! (i * w + j) = elems r ! (p * m + (i * w + j))"
      "take m (drop (p * m) (elems g)) ! (i * w + j) = elems g ! (p * m + (i * w + j))"
      "take m (drop (p * m) (elems b)) ! (i * w + j) = elems b ! (p * m + (i * w + j))"
      using block_nth [OF len(1) that(1) q] block_nth [OF len(2) that(1) q]
        block_nth [OF len(3) that(1) q] by simp_all
    have pick: "concat (map F [0..<n]) ! (p * (3 * m) + c) = F p ! c" if "c < 3 * m" for c
      using lenF \<open>p < n\<close> that by (rule nth_concat_blocks)
    have Fp: "F p ! (i * w + j) = elems r ! (p * m + (i * w + j))"
      "F p ! (m + (i * w + j)) = elems g ! (p * m + (i * w + j))"
      "F p ! (2 * m + (i * w + j)) = elems b ! (p * m + (i * w + j))"
      unfolding F_def using nth_append3 [OF blk(1) blk(2) q] nth by simp_all
    have src: "at4 r p 0 i j = elems r ! (p * m + (i * w + j))"
      "at4 g p 0 i j = elems g ! (p * m + (i * w + j))"
      "at4 b p 0 i j = elems b ! (p * m + (i * w + j))"
      by (simp_all add: at4_def sh m_def algebra_simps)
    have "at4 ?s p 0 i j = concat (map F [0..<n]) ! (p * (3 * m) + (i * w + j))"
      by (simp add: at4_def m_def algebra_simps)
    also have "\<dots> = F p ! (i * w + j)" using q by (intro pick) simp
    finally have 0: "at4 ?s p 0 i j = at4 r p 0 i j" by (simp add: Fp src)
    have "at4 ?s p 1 i j = concat (map F [0..<n]) ! (p * (3 * m) + (m + (i * w + j)))"
      by (simp add: at4_def m_def algebra_simps)
    also have "\<dots> = F p ! (m + (i * w + j))" using q by (intro pick) simp
    finally have 1: "at4 ?s p 1 i j = at4 g p 0 i j" by (simp add: Fp src)
    have "at4 ?s p 2 i j = concat (map F [0..<n]) ! (p * (3 * m) + (2 * m + (i * w + j)))"
      by (simp add: at4_def m_def algebra_simps)
    also have "\<dots> = F p ! (2 * m + (i * w + j))" using q by (intro pick) simp
    finally have 2: "at4 ?s p 2 i j = at4 b p 0 i j" by (simp add: Fp src)
    from 0 1 2 show ?thesis by blast
  qed
  with eq wf show ?thesis by blast
qed

lemma ycbcr2rgb_value_at4:
  assumes "wf4 v n 3 h w"
  shows "\<exists>out. ycbcr2rgb_value v = Inr out \<and> wf4 out n 3 h w \<and>
           (\<forall>b i j. b < n \<and> i < h \<and> j < w \<longrightarrow>
              at4 out b 0 i j =
                (1.164 * (at4 v b 0 i j * 255.0 - 16) + 1.596 * (at4 v b 2 i j * 255.0 - 128))
                  / 255.0 \<and>
              at4 out b 1 i j =
                (1.164 * (at4 v b 0 i j * 255.0 - 16) - 0.392 * (at4 v b 1 i j * 255.0 - 128)
                   - 0.813 * (at4 v b 2 i j * 255.0 - 128)) / 255.0 \<and>
              at4 out b 2 i j =
                (1.164 * (at4 v b 0 i j * 255.0 - 16) + 2.017 * (at4 v b 1 i j * 255.0 - 128))
                  / 255.0)"
proof -
  let ?a = "amap (\<lambda>x. x * 255.0) v"
  note a = amap_at4 [OF assms, where f = "\<lambda>x. x * 255.0"]
  from slice1_at4 [OF a(1), where lo = 0 and hi = 1] obtain y where y: "slice1 0 (Some 1) ?a = Inr y"
    "wf4 y n 1 h w" "\<And>b i j. b < n \<Longrightarrow> i < h \<Longrightarrow> j < w \<Longrightarrow> at4 y b 0 i j = at4 ?a b 0 i j"
    by auto
  from slice1_at4 [OF a(1), where lo = 1 and hi = 2] obtain cb where cb: "slice1 1 (Some 2) ?a = Inr cb"
    "wf4 cb n 1 h w" "\<And>b i j. b < n \<Longrightarrow> i < h \<Longrightarrow> j < w \<Longrightarrow> at4 cb b 0 i j = at4 ?a b 1 i j"
    by auto
  from slice1_at4 [OF a(1), where lo = 2 and hi = 3] obtain cr where cr: "slice1 2 (Some 3) ?a = Inr cr"
    "wf4 cr n 1 h w" "\<And>b i j. b < n \<Longrightarrow> i < h \<Longrightarrow> j < w \<Longrightarrow> at4 cr b 0 i j = at4 ?a b 2 i j"
    by auto
  let ?y1 = "amap (\<lambda>x. 1.164 * x) (amap (\<lambda>x. x - 16) y)"
  let ?cr_r = "amap (\<lambda>x. 1.596 * x) (amap (\<lambda>x. x - 128) cr)"
  let ?cb_g = "amap (\<lambda>x. 0.392 * x) (amap (\<lambda>x. x - 128) cb)"
  let ?cr_g = "amap (\<lambda>x. 0.813 * x) (amap (\<lambda>x. x - 128) cr)"
  let ?cb_b = "amap (\<lambda>x. 2.017 * x) (amap (\<lambda>x. x - 128) cb)"
  note y1 = amap_at4 [OF amap_at4(1) [OF y(2), where f = "\<lambda>x. x - 16"], where f = "\<lambda>x. 1.164 * x"]
    amap_at4(2) [OF y(2), where f = "\<lambda>x. x - 16"]
  note cr_r = amap_at4 [OF amap_at4(1) [OF cr(2), where f = "\<lambda>x. x - 128"], where f = "\<lambda>x. 1.596 * x"]
    amap_at4(2) [OF cr(2), where f = "\<lambda>x. x - 128"]
  note cb_g = amap_at4 [OF amap_at4(1) [OF cb(2), where f = "\<lambda>x. x - 128"], where f = "\<lambda>x. 0.392 * x"]
    amap_at4(2) [OF cb(2), where f = "\<lambda>x. x - 128"]
  note cr_g = amap_at4 [OF amap_at4(1) [OF cr(2), where f = "\<lambda>x. x - 128"], where f = "\<lambda>x. 0.813 * x"]
  note cb_b = amap_at4 [OF amap_at4(1) [OF cb(2), where f = "\<lambda>x. x - 128"], where f = "\<lambda>x. 2.017 * x"]
  from abinop_at4 [OF y1(1) cr_r(1), where f = "(+)"] obtain r where r: "abinop (+) ?y1 ?cr_r = Inr r"
    "wf4 r n 1 h w"
    "\<And>b i j. b < n \<Longrightarrow> i < h \<Longrightarrow> j < w \<Longrightarrow> at4 r b 0 i j = at4 ?y1 b 0 i j + at4 ?cr_r b 0 i j"
    by auto
  from abinop_at4 [OF y1(1) cb_g(1), where f = "(-)"] obtain d where d: "abinop (-) ?y1 ?cb_g = Inr d"
    "wf4 d n 1 h w"
    "\<And>b i j. b < n \<Longrightarrow> i < h \<Longrightarrow> j < w \<Longrightarrow> at4 d b 0 i j = at4 ?y1 b 0 i j - at4 ?cb_g b 0 i j"
    by auto
  from abinop_at4 [OF d(2) cr_g(1), where f = "(-)"] obtain g where g: "abinop (-) d ?cr_g = Inr g"
    "wf4 g n 1 h w"
    "\<And>b i j. b < n \<Longrightarrow> i < h \<Longrightarrow> j < w \<Longrightarrow> at4 g b 0 i j = at4 d b 0 i j - at4 ?cr_g b 0 i j"
    by auto
  from abinop_at4 [OF y1(1) cb_b(1), where f = "(+)"] obtain bl where bl: "abinop (+) ?y1 ?cb_b = Inr bl"
    "wf4 bl n 1 h w"
    "\<And>b i j. b < n \<Longrightarrow> i < h \<Longrightarrow> j < w \<Longrightarrow> at4 bl b 0 i j = at4 ?y1 b 0 i j + at4 ?cb_b b 0 i j"
    by auto
  from cat1_at4 [OF r(2) g(2) bl(2)] obtain rgb where rgb: "cat1 r g bl = Inr rgb"
    "wf4 rgb n 3 h w"
    "\<And>b i j. b < n \<Longrightarrow> i < h \<Longrightarrow> j < w \<Longrightarrow>
       at4 rgb b 0 i j = at4 r b 0 i j \<and> at4 rgb b 1 i j = at4 g b 0 i j \<and>
       at4 rgb b 2 i j = at4 bl b 0 i j"
    by auto
  let ?out = "amap (\<lambda>x. x / 255.0) rgb"
  note out = amap_at4 [OF rgb(2), where f = "\<lambda>x. x / 255.0"]
  have eq: "ycbcr2rgb_value v = Inr ?out"
    by (simp only: ycbcr2rgb_value_def Let_def y(1) cb(1) cr(1) r(1) d(1) g(1) bl(1) rgb(1)
          ebind_Inr)
  have "at4 ?out b 0 i j =
          (1.164 * (at4 v b 0 i j * 255.0 - 16) + 1.596 * (at4 v b 2 i j * 255.0 - 128)) / 255.0 \<and>
        at4 ?out b 1 i j =
          (1.164 * (at4 v b 0 i j * 255.0 - 16) - 0.392 * (at4 v b 1 i j * 255.0 - 128)
             - 0.813 * (at4 v b 2 i j * 255.0 - 128)) / 255.0 \<and>
        at4 ?out b 2 i j =
          (1.164 * (at4 v b 0 i j * 255.0 - 16) + 2.017 * (at4 v b 1 i j * 255.0 - 128)) / 255.0"
    if "b < n" "i < h" "j < w" for b i j
    using that rgb(3) [OF that] r(3) [OF that] g(3) [OF that] d(3) [OF that] bl(3) [OF that]
      y(3) [OF that] cb(3) [OF that] cr(3) [OF that]
    by (simp add: amap_at4(2) [OF rgb(2)] amap_at4(2) [OF assms] amap_at4(2) [OF y(2)] amap_at4(2) [OF cb(2)] amap_at4(2) [OF cr(2)]
          amap_at4(2) [OF amap_at4(1) [OF y(2)]] amap_at4(2) [OF amap_at4(1) [OF cb(2)]]
          amap_at4(2) [OF amap_at4(1) [OF cr(2)]])
  with eq out(1) show ?thesis by blast
qed


text \<open>
  Claim C7. On a tensor of shape \<open>(n, 3, h, w)\<close>, \<^verbatim>\<open>ycbcr2rgb_pt\<close> returns a new tensor of
  the same shape whose channels are, at every position, the closed forms in the channels
  \<open>y\<close>, \<open>cb\<close>, \<open>cr\<close> of the input scaled by 255: \<open>1.164 (y - 16) + 1.596 (cr - 128)\<close>,
  \<open>1.164 (y - 16) - 0.392 (cb - 128) - 0.813 (cr - 128)\<close> and
  \<open>1.164 (y - 16) + 2.017 (cb - 128)\<close>, each divided by 255.
\<close>

theorem ycbcr2rgb_pt_closed_form:
  assumes "buf img < length st" and "wf4 (contents st img) n 3 h w"
  shows "\<exists>out st'. ycbcr2rgb_pt img st = (Inr out, st') \<and>
           wf4 (contents st' out) n 3 h w \<and>
           (\<forall>b i j. b < n \<and> i < h \<and> j < w \<longrightarrow>
              at4 (contents st' out) b 0 i j =
                (1.164 * (at4 (contents st img) b 0 i j * 255.0 - 16)
                   + 1.596 * (at4 (contents st img) b 2 i j * 255.0 - 128)) / 255.0 \<and>
              at4 (contents st' out) b 1 i j =
                (1.164 * (at4 (contents st img) b 0 i j * 255.0 - 16)
                   - 0.392 * (at4 (contents st img) b 1 i j * 255.0 - 128)
                   - 0.813 * (at4 (contents st img) b 2 i j * 255.0 - 128)) / 255.0 \<and>
              at4 (contents st' out) b 2 i j =
                (1.164 * (at4 (contents st img) b 0 i j * 255.0 - 16)
                   + 2.017 * (at4 (contents st img) b 1 i j * 255.0 - 128)) / 255.0)"
proof -
  let ?v = "contents st img"
  from assms(1) have "rep st img ?v" by (simp add: rep_def)
  then have ref: "refines st (ycbcr2rgb_pt img) (ycbcr2rgb_value ?v)"
    by (rule ycbcr2rgb_pt_refines)
  from ycbcr2rgb_value_at4 [OF assms(2)] obtain outv
    where outv: "ycbcr2rgb_value ?v = Inr outv" "wf4 outv n 3 h w"
      "\<forall>b i j. b < n \<and> i < h \<and> j < w \<longrightarrow>
              at4 outv b 0 i j =
                (1.164 * (at4 ?v b 0 i j * 255.0 - 16)
                   + 1.596 * (at4 ?v b 2 i j * 255.0 - 128)) / 255.0 \<and>
              at4 outv b 1 i j =
                (1.164 * (at4 ?v b 0 i j * 255.0 - 16)
                   - 0.392 * (at4 ?v b 1 i j * 255.0 - 128)
                   - 0.813 * (at4 ?v b 2 i j * 255.0 - 128)) / 255.0 \<and>
              at4 outv b 2 i j =
                (1.164 * (at4 ?v b 0 i j * 255.0 - 16)
                   + 2.017 * (at4 ?v b 1 i j * 255.0 - 128)) / 255.0"
    by blast
  from ref [unfolded outv(1) refines_def] obtain res bs
    where run: "ycbcr2rgb_pt img st = (res, st @ bs)"
      and res: "case res of Inl e \<Rightarrow> (Inr outv :: error + real arr) = Inl e
                | Inr t \<Rightarrow> \<exists>u. (Inr outv :: error + real arr) = Inr u \<and> rep (st @ bs) t u"
    by blast
  from res obtain out where out: "res = Inr out" "contents (st @ bs) out = outv"
    by (cases res) (auto simp: rep_def)
  from run out outv(2,3) show ?thesis by blast
qed

theorem ycbcr2rgb_pt_closed_form_witness:
  "buf \<lparr>buf = 0, view = \<lparr>shape = [1, 3, 1, 1], elems = [0, 1, 2]\<rparr>\<rparr>
     < length [[47 / 51, 128 / 255, 128 / 255 :: real]] \<and>
   wf4 (contents [[47 / 51, 128 / 255, 128 / 255]]
          \<lparr>buf = 0, view = \<lparr>shape = [1, 3, 1, 1], elems = [0, 1, 2]\<rparr>\<rparr>) 1 3 1 1 \<and>
   (\<exists>out st'. ycbcr2rgb_pt \<lparr>buf = 0, view = \<lparr>shape = [1, 3, 1, 1], elems = [0, 1, 2]\<rparr>\<rparr>
                 [[47 / 51, 128 / 255, 128 / 255]] = (Inr out, st') \<and>
      at4 (contents st' out) 0 0 0 0 = 21243 / 21250 \<and>
      at4 (contents st' out) 0 1 0 0 = 21243 / 21250 \<and>
      at4 (contents st' out) 0 2 0 0 = 21243 / 21250)"
proof -
  let ?img = "\<lparr>buf = 0, view = \<lparr>shape = [1, 3, 1, 1], elems = [0, 1, 2]\<rparr>\<rparr>"
  let ?st = "[[47 / 51, 128 / 255, 128 / 255 :: real]]"
  have 1: "buf ?img < length ?st" by simp
  have 2: "wf4 (contents ?st ?img) 1 3 1 1"
    by (simp add: wf4_def contents_def amap_def)
  from ycbcr2rgb_pt_closed_form [OF 1 2] obtain out st'
    where run: "ycbcr2rgb_pt ?img ?st = (Inr out, st')"
      and px: "\<forall>b i j. b < 1 \<and> i < 1 \<and> j < 1 \<longrightarrow>
              at4 (contents st' out) b 0 i j =
                (1.164 * (at4 (contents ?st ?img) b 0 i j * 255.0 - 16)
                   + 1.596 * (at4 (contents ?st ?img) b 2 i j * 255.0 - 128)) / 255.0 \<and>
              at4 (contents st' out) b 1 i j =
                (1.164 * (at4 (contents ?st ?img) b 0 i j * 255.0 - 16)
                   - 0.392 * (at4 (contents ?st ?img) b 1 i j * 255.0 - 128)
                   - 0.813 * (at4 (contents ?st ?img) b 2 i j * 255.0 - 128)) / 255.0 \<and>
              at4 (contents st' out) b 2 i j =
                (1.164 * (at4 (contents ?st ?img) b 0 i j * 255.0 - 16)
                   + 2.017 * (at4 (contents ?st ?img) b 1 i j * 255.0 - 128)) / 255.0"
    by blast
  have v: "at4 (contents ?st ?img) 0 0 0 0 = 47 / 51"
    "at4 (contents ?st ?img) 0 1 0 0 = 128 / 255"
    "at4 (contents ?st ?img) 0 2 0 0 = 128 / 255"
    by (simp_all add: at4_def contents_def amap_def)
  from v px have "at4 (contents st' out) 0 0 0 0 = 21243 / 21250 \<and>
      at4 (contents st' out) 0 1 0 0 = 21243 / 21250 \<and>
      at4 (contents st' out) 0 2 0 0 = 21243 / 21250"
    by simp
  with 1 2 run show ?thesis by blast
qed

section \<open>Properties of the luma and Lab functions\<close>

lemmas arr_defs =
  amap_def flat_index_def bshape_def expand_def abinop_def awhere_def index_of_def
  permute_arr_def slice1_def select_m3_def stack_m3_def cat1_def matmul_arr_def chunks_def
  dotp_def vecmat_def reshape_arr_def

lemma cube_root_near_one:
  fixes x :: real
  assumes "0 < x" "x \<le> 1"
  shows "x \<le> x powr (1 / 3)" and "x powr (1 / 3) \<le> 1"
proof -
  have "x powr 1 \<le> x powr (1 / 3)"
    using assms by (intro powr_mono') simp_all
  with assms show "x \<le> x powr (1 / 3)" by simp
  have "x powr (1 / 3) \<le> 1 powr (1 / 3)"
    using assms by (intro powr_mono2) simp_all
  then show "x powr (1 / 3) \<le> 1" by simp
qed

lemma lab_white_value:
  "linear_rgb_to_lab_norm \<lparr>shape = [1, 3, 1, 1], elems = [1, 1, 1]\<rparr> =
     Inr \<lparr>shape = [1, 3, 1, 1],
          elems = [1, (500 * ((475228 / 475235) powr (1 / 3) - 1) + 128) / 255,
                   (200 * (1 - (544377 / 544415) powr (1 / 3)) + 128) / 255]\<rparr>"
  by (simp add: linear_rgb_to_lab_norm_def rgb_to_xyz_def lincomb_def arr_defs ebind_def
        Let_def upt_conv_Cons)

text \<open>
  Claim C8. On a pure white pixel \<^verbatim>\<open>linear_rgb_to_lab_norm\<close> gives the normalised lightness
  1 and \<open>a\<close> and \<open>b\<close> within \<open>1/10000\<close> of \<open>128/255\<close>; on a pure black pixel it gives
  the lightness 0 (and \<open>a = b = 128/255\<close>). The values are those of exact arithmetic.
\<close>

theorem lab_white_and_black:
  "(\<exists>a b. linear_rgb_to_lab_norm \<lparr>shape = [1, 3, 1, 1], elems = [1, 1, 1]\<rparr>
            = Inr \<lparr>shape = [1, 3, 1, 1], elems = [1, a, b]\<rparr> \<and>
          \<bar>a - 128 / 255\<bar> \<le> 1 / 10000 \<and> \<bar>b - 128 / 255\<bar> \<le> 1 / 10000) \<and>
   linear_rgb_to_lab_norm \<lparr>shape = [1, 3, 1, 1], elems = [0, 0, 0]\<rparr>
     = Inr \<lparr>shape = [1, 3, 1, 1], elems = [0, 128 / 255, 128 / 255]\<rparr>"
proof -
  define u :: real where "u = (475228 / 475235) powr (1 / 3)"
  define v :: real where "v = (544377 / 544415) powr (1 / 3)"
  have u: "475228 / 475235 \<le> u" "u \<le> 1"
    unfolding u_def by (rule cube_root_near_one; simp)+
  have v: "544377 / 544415 \<le> v" "v \<le> 1"
    unfolding v_def by (rule cube_root_near_one; simp)+
  have a: "\<bar>(500 * (u - 1) + 128) / 255 - 128 / 255\<bar> \<le> 1 / 10000"
    using u by (simp add: abs_le_iff field_simps)
  have b: "\<bar>(200 * (1 - v) + 128) / 255 - 128 / 255\<bar> \<le> 1 / 10000"
    using v by (simp add: abs_le_iff field_simps)
  have white: "\<exists>a b. linear_rgb_to_lab_norm \<lparr>shape = [1, 3, 1, 1], elems = [1, 1, 1]\<rparr>
            = Inr \<lparr>shape = [1, 3, 1, 1], elems = [1, a, b]\<rparr> \<and>
          \<bar>a - 128 / 255\<bar> \<le> 1 / 10000 \<and> \<bar>b - 128 / 255\<bar> \<le> 1 / 10000"
    using a b unfolding lab_white_value u_def v_def by blast
  have black: "linear_rgb_to_lab_norm \<lparr>shape = [1, 3, 1, 1], elems = [0, 0, 0]\<rparr>
     = Inr \<lparr>shape = [1, 3, 1, 1], elems = [0, 128 / 255, 128 / 255]\<rparr>"
    by (simp add: linear_rgb_to_lab_norm_def rgb_to_xyz_def lincomb_def arr_defs ebind_def
          Let_def upt_conv_Cons)
  from white black show ?thesis by blast
qed

text \<open>
  Claim C4. At or below the threshold \<open>216/24389\<close> the CIE lightness is the luminance
  scaled by \<open>24389/27\<close>, and \<^verbatim>\<open>rgb_to_luma\<close> is documented as \<^verbatim>\<open>RGB to CIELAB L*\<close>. The code
  multiplies the luminance by the scaled luminance. For the one-channel sample \<open>1/128\<close>
  the luminance \<open>1/128/12.92\<close> is below the threshold, and the result is the clamped
  hundredth of its square times \<open>24389/27\<close>, not of the luminance times \<open>24389/27\<close>.
\<close>

theorem luma_linear_segment_squared:
  "rgb_to_luma \<lparr>shape = [1, 1, 1, 1], elems = [1 / 128]\<rparr>
     = Inr \<lparr>shape = [1, 1, 1, 1], elems = [609725 / 184607244288]\<rparr> \<and>
   (1 / 128 / 12.92 :: real) \<le> 216 / 24389 \<and>
   (609725 / 184607244288 :: real) = clamp 0 1 ((1 / 128 / 12.92) * ((1 / 128 / 12.92) * (24389 / 27)) / 100) \<and>
   (609725 / 184607244288 :: real) \<noteq> clamp 0 1 ((1 / 128 / 12.92) * (24389 / 27) / 100)"
  by (simp add: rgb_to_luma_def arr_defs clamp_def ebind_def Let_def upt_conv_Cons)

text \<open>
  Claim C9. Both functions raise \<^verbatim>\<open>ValueError\<close> with the required shape for two channels,
  and \<^verbatim>\<open>rgb_to_linear_rgb\<close> returns for three channels (lemmas \<open>two_channels_rejected\<close>
  and \<open>linear_rgb_three_channels\<close> below). \<^verbatim>\<open>rgb_to_luma\<close> is to return for one or three
  channels in the third dimension from the end; it does for four dimensions (lemma
  \<open>luma_rank4\<close>), but its check and its message admit the shape \<^verbatim>\<open>(3, H, W)\<close>, and on a
  tensor of that shape \<^verbatim>\<open>permute(0, 2, 3, 1)\<close> raises \<^verbatim>\<open>RuntimeError\<close>.
\<close>

theorem luma_rejects_rank3:
  "rgb_to_luma \<lparr>shape = [3, 1, 1], elems = [1 / 2, 1 / 2, 1 / 2]\<rparr>
     = Inl (RuntimeError
         ''permute: number of dimensions in the tensor input does not match the length of the desired ordering of dimensions'')"
  by (simp add: rgb_to_luma_def permute_arr_def ebind_def Let_def)

lemma two_channels_rejected:
  assumes "3 \<le> length (shape img)" and "shape img ! (length (shape img) - 3) = 2"
  shows "rgb_to_luma img = Inl (ValueError
           (''Input size must have a shape of (*, 3, H, W) or (*, 1, H, W). Got '' @
            show_size (shape img)))"
    and "rgb_to_linear_rgb img = Inl (ValueError
           (''Input size must have a shape of (*, 3, H, W).Got '' @ show_size (shape img)))"
  using assms by (simp_all add: rgb_to_luma_def rgb_to_linear_rgb_def Let_def)

lemma linear_rgb_three_channels:
  assumes "3 \<le> length (shape img)" and "shape img ! (length (shape img) - 3) = 3"
  shows "\<exists>out. rgb_to_linear_rgb img = Inr out \<and> shape out = shape img"
  using assms by (simp add: rgb_to_linear_rgb_def Let_def awhere_def abinop_def amap_def)

lemma luma_rank4:
  assumes "shape img = [n, c, h, w]" and "c = 1 \<or> c = 3"
  shows "\<exists>out. rgb_to_luma img = Inr out"
  using assms
  by (auto simp: rgb_to_luma_def Let_def permute_arr_def awhere_def abinop_def amap_def
        ebind_def matmul_arr_def upt_conv_Cons)

end
